theory Spec2Isabelle
  imports Complex_Main "HOL-Library.Sublist"
begin

section \<open>JavaScript values\<close>

text \<open>
  A JavaScript string is a sequence of UTF-16 code units; a code unit is modelled as a
  natural number. \<open>lit\<close> turns an ASCII literal of the source into its code units.
\<close>

type_synonym jsstring = "nat list"

definition lit :: "string \<Rightarrow> jsstring" where
  "lit s = map of_char s"

text \<open>
  A JavaScript number is an IEEE-754 double. The finite ones are modelled by the rational
  they stand for, and the arithmetic on them is exact: the rounding error of double
  arithmetic is not part of the model. The type \<open>number\<close> adds the three special values
  where the source names them (\<open>-Infinity\<close>, \<open>Infinity\<close>) or a builtin may return them.
\<close>

datatype number = NaN | NegInfinity | Finite rat | Infinity

text \<open>\<open>Math.max\<close> and \<open>Math.min\<close> of two arguments.\<close>

fun Math_max :: "number \<Rightarrow> number \<Rightarrow> number" where
  "Math_max NaN _ = NaN"
| "Math_max _ NaN = NaN"
| "Math_max Infinity _ = Infinity"
| "Math_max _ Infinity = Infinity"
| "Math_max NegInfinity y = y"
| "Math_max x NegInfinity = x"
| "Math_max (Finite a) (Finite b) = Finite (max a b)"

fun Math_min :: "number \<Rightarrow> number \<Rightarrow> number" where
  "Math_min NaN _ = NaN"
| "Math_min _ NaN = NaN"
| "Math_min NegInfinity _ = NegInfinity"
| "Math_min _ NegInfinity = NegInfinity"
| "Math_min Infinity y = y"
| "Math_min x Infinity = x"
| "Math_min (Finite a) (Finite b) = Finite (min a b)"

text \<open>\<open>Math.round\<close>: the nearest integer, a tie going up.\<close>

definition Math_round :: "rat \<Rightarrow> int" where
  "Math_round x = \<lfloor>x + 1 / 2\<rfloor>"

text \<open>
  \<open>round(value, precision)\<close> of state.ts and \<open>roundNumber(value, precision)\<close> of
  binance/service.ts: \<open>Math.round(value * factor) / factor\<close> with
  \<open>factor = Math.pow(10, precision)\<close>.
\<close>

definition round_st :: "rat \<Rightarrow> nat \<Rightarrow> rat" where
  "round_st v precision =
     (let factor = 10 ^ precision in of_int (Math_round (v * factor)) / factor)"

definition roundNumber :: "rat \<Rightarrow> nat \<Rightarrow> rat" where
  "roundNumber v precision =
     (let factor = 10 ^ precision in of_int (Math_round (v * factor)) / factor)"

text \<open>The same two functions at a value that may be infinite: infinities and NaN pass through.\<close>

definition round_st_number :: "number \<Rightarrow> nat \<Rightarrow> number" where
  "round_st_number v precision =
     (case v of Finite r \<Rightarrow> Finite (round_st r precision) | other \<Rightarrow> other)"

definition roundNumber_number :: "number \<Rightarrow> nat \<Rightarrow> number" where
  "roundNumber_number v precision =
     (case v of Finite r \<Rightarrow> Finite (roundNumber r precision) | other \<Rightarrow> other)"

section \<open>String builtins\<close>

text \<open>
  \<open>String.prototype.toUpperCase\<close> on ASCII code units. Outside ASCII the builtin follows
  the Unicode case tables, which are not modelled: the function below leaves such a code
  unit as it is, so it is the builtin only on ASCII strings.
\<close>

definition isAscii :: "jsstring \<Rightarrow> bool" where
  "isAscii s = list_all (\<lambda>c. c < 128) s"

definition toUpperCase :: "jsstring \<Rightarrow> jsstring" where
  "toUpperCase s = map (\<lambda>c. if 97 \<le> c \<and> c \<le> 122 then c - 32 else c) s"

text \<open>\<open>s.endsWith(q)\<close>, \<open>s.startsWith(q)\<close> and \<open>s.includes(q)\<close>.\<close>

definition endsWith :: "jsstring \<Rightarrow> jsstring \<Rightarrow> bool" where
  "endsWith s q = suffix q s"

definition startsWith :: "jsstring \<Rightarrow> jsstring \<Rightarrow> bool" where
  "startsWith s q = prefix q s"

fun includes_str :: "jsstring \<Rightarrow> jsstring \<Rightarrow> bool" where
  "includes_str [] q = (q = [])"
| "includes_str (c # cs) q = (prefix q (c # cs) \<or> includes_str cs q)"

text \<open>\<open>s.replace(sep, '')\<close> with a one-character string pattern: the first occurrence goes.\<close>

fun replace_first :: "nat \<Rightarrow> jsstring \<Rightarrow> jsstring" where
  "replace_first sep [] = []"
| "replace_first sep (c # cs) = (if c = sep then cs else c # replace_first sep cs)"


text \<open>
  White space and line terminators of ECMAScript, which \<open>trim\<close> removes at both ends.
\<close>

definition isWhiteSpace :: "nat \<Rightarrow> bool" where
  "isWhiteSpace c =
     (c \<in> {9, 10, 11, 12, 13, 32, 160, 5760, 8232, 8233, 8239, 8287, 12288, 65279}
      \<or> (8192 \<le> c \<and> c \<le> 8202))"

definition trim :: "jsstring \<Rightarrow> jsstring" where
  "trim s = rev (dropWhile isWhiteSpace (rev (dropWhile isWhiteSpace s)))"

section \<open>Number formatting\<close>

text \<open>The decimal digits of a natural number, most significant first.\<close>

fun digits :: "nat \<Rightarrow> jsstring" where
  "digits n = (if n < 10 then [48 + n] else digits (n div 10) @ [48 + n mod 10])"

declare digits.simps [simp del]

text \<open>
  \<open>Number.prototype.toFixed(f)\<close> (ECMAScript, Number.prototype.toFixed): a sign for a
  negative value; at \<open>10\<^sup>2\<^sup>1\<close> and above the builtin leaves fixed notation and returns
  \<open>ToString(x)\<close>, which is the parameter \<open>toString\<close> here; below, \<open>n\<close> is the integer
  nearest to \<open>x * 10\<^sup>f\<close> (the larger one on a tie), written with \<open>f\<close> digits after the point.
\<close>

definition toFixed_abs :: "(rat \<Rightarrow> jsstring) \<Rightarrow> rat \<Rightarrow> nat \<Rightarrow> jsstring" where
  "toFixed_abs toString x f =
     (if x \<ge> 10 ^ 21 then toString x
      else let n = nat \<lfloor>x * 10 ^ f + 1 / 2\<rfloor>;
               m = digits n
           in if f = 0 then m
              else let m' = (if length m \<le> f then replicate (f + 1 - length m) 48 @ m else m);
                       k = length m'
                   in take (k - f) m' @ lit ''.'' @ drop (k - f) m')"

definition toFixed :: "(rat \<Rightarrow> jsstring) \<Rightarrow> number \<Rightarrow> nat \<Rightarrow> jsstring" where
  "toFixed toString v f =
     (case v of
        NaN \<Rightarrow> lit ''NaN''
      | Infinity \<Rightarrow> lit ''Infinity''
      | NegInfinity \<Rightarrow> lit ''-Infinity''
      | Finite x \<Rightarrow>
          (if x < 0 then lit ''-'' @ toFixed_abs toString (- x) f
           else toFixed_abs toString x f))"

section \<open>Trades\<close>

datatype tradeType = Long | Short

datatype tradeStatus = Active | Closed | Pending | Cancelled

text \<open>
  \<open>TradeRecord\<close> of state.ts (the \<open>Trade\<close> of the shared schema); a nullable field is an
  option. Time stamps are the ISO-8601 strings the source stores.
\<close>

record TradeRecord =
  trade_id :: jsstring
  userId :: jsstring
  symbol :: jsstring
  trade_type :: tradeType
  status :: tradeStatus
  entryPrice :: rat
  exitPrice :: "rat option"
  quantity :: rat
  leverage :: rat
  stopLoss :: rat
  takeProfit :: rat
  profit :: "rat option"
  profitPercent :: "rat option"
  entryTime :: jsstring
  exitTime :: "jsstring option"
  entrySignals :: "jsstring list"
  binanceOrderId :: jsstring
  trailingStopActive :: bool
  trailingStopPrice :: "rat option"
  highestPrice :: "rat option"
  lowestPrice :: "rat option"
  isAutoTrade :: bool

text \<open>\<open>trade.profit ?? 0\<close>, \<open>trade.profit ?? -Infinity\<close> and \<open>trade.profit ?? Infinity\<close>.\<close>

definition profit_or_0 :: "TradeRecord \<Rightarrow> rat" where
  "profit_or_0 t = (case profit t of None \<Rightarrow> 0 | Some p \<Rightarrow> p)"

definition profit_or_NegInfinity :: "TradeRecord \<Rightarrow> number" where
  "profit_or_NegInfinity t = (case profit t of None \<Rightarrow> NegInfinity | Some p \<Rightarrow> Finite p)"

definition profit_or_Infinity :: "TradeRecord \<Rightarrow> number" where
  "profit_or_Infinity t = (case profit t of None \<Rightarrow> Infinity | Some p \<Rightarrow> Finite p)"

section \<open>The runtime\<close>

text \<open>
  What one call of an exported function reads from the JavaScript runtime: the clock, the
  random generator and the builtins that are not modelled in full. The clock is read as
  one instant during a call.
\<close>

record runtime =
  Math_sin_now :: "rat \<Rightarrow> rat"
    \<comment> \<open>\<open>Math.sin(Date.now() / 60000 + x)\<close> as a function of \<open>x\<close>\<close>
  Date_now :: int
    \<comment> \<open>\<open>Date.now()\<close>, milliseconds\<close>
  Date_toISOString_now :: jsstring
    \<comment> \<open>\<open>new Date().toISOString()\<close>\<close>
  Date_getTime :: "jsstring \<Rightarrow> int option"
    \<comment> \<open>\<open>new Date(s).getTime()\<close>, \<open>None\<close> for NaN\<close>
  Math_random_id :: jsstring
    \<comment> \<open>\<open>Math.random().toString(36).slice(2, 10)\<close>\<close>
  Number_toString :: "rat \<Rightarrow> jsstring"
    \<comment> \<open>\<open>ToString(x)\<close> of a finite number, read by \<open>toFixed\<close> from \<open>10\<^sup>2\<^sup>1\<close> on\<close>
  Number_of_string :: "jsstring \<Rightarrow> number"
    \<comment> \<open>\<open>Number(s)\<close> of a string\<close>
  parseFloat :: "jsstring \<Rightarrow> number"
    \<comment> \<open>\<open>parseFloat(s)\<close>\<close>

section \<open>The mock state store (state.ts)\<close>

text \<open>
  Values of \<open>Record<string, unknown>\<close>: what \<open>JSON.parse\<close> produces, and \<open>undefined\<close>. An
  object is a finite map from property names to values.
\<close>

datatype jsvalue =
    JUndefined
  | JNull
  | JBool bool
  | JNum number
  | JStr jsstring
  | JArr "jsvalue list"
  | JObj "(jsstring \<times> jsvalue) list"

type_synonym jsobject = "jsstring \<Rightarrow> jsvalue option"

datatype logLevel = Info | Warning | Error | Success

record ActivityLog =
  log_id :: jsstring
  log_userId :: jsstring
  level :: logLevel
  message :: jsstring
  details :: "jsstring option"
  timestamp :: jsstring

datatype positionSide = LONG | SHORT | BOTH

record AccountPosition =
  pos_symbol :: jsstring
  pos_side :: positionSide
  pos_entryPrice :: rat
  pos_quantity :: rat
  pos_leverage :: rat

record AccountState =
  acc_connected :: bool
  acc_totalBalance :: rat
  acc_availableBalance :: rat
  acc_message :: "jsstring option"
  acc_error :: "jsstring option"
  positions :: "AccountPosition list"

record MarketBase =
  mb_price :: rat
  mb_priceChange24h :: rat
  mb_high24h :: rat
  mb_low24h :: rat
  mb_volume24h :: rat

record MarketSnapshot =
  ms_symbol :: jsstring
  ms_price :: rat
  ms_priceChange24h :: rat
  ms_priceChangePercent24h :: rat
  ms_high24h :: rat
  ms_low24h :: rat
  ms_volume24h :: rat
  ms_timestamp :: jsstring

record AutoTradingState =
  enabled :: bool
  isRunning :: bool

text \<open>
  The module-level \<open>state\<close> object. Its \<open>technical\<close> and \<open>aiPredictions\<close> templates are
  read-only tables that no function below reads, and are left out.
\<close>

record state =
  settings :: jsobject
  trades_active :: "TradeRecord list"
  trades_history :: "TradeRecord list"
  logs :: "ActivityLog list"
  market :: "jsstring \<Rightarrow> MarketBase option"
  account :: AccountState
  autoTrading :: AutoTradingState

definition userId_demo :: jsstring where
  "userId_demo = lit ''user-demo''"

definition MAX_LOGS :: nat where
  "MAX_LOGS = 100"

definition toSymbolKey :: "jsstring \<Rightarrow> jsstring" where
  "toSymbolKey s = toUpperCase (replace_first 47 s)"

text \<open>
  \<open>addLog\<close>: the new entry goes to the front, and the list is cut to \<open>MAX_LOGS\<close> entries.
\<close>

definition addLog ::
  "runtime \<Rightarrow> logLevel \<Rightarrow> jsstring \<Rightarrow> jsstring option \<Rightarrow> state \<Rightarrow> ActivityLog \<times> state" where
  "addLog rt lv msg det st =
     (let log = \<lparr> log_id = lit ''log-'' @ Math_random_id rt,
                   log_userId = userId_demo,
                   level = lv,
                   message = msg,
                   details = det,
                   timestamp = Date_toISOString_now rt \<rparr>;
          logs1 = log # logs st;
          logs2 = (if length logs1 > MAX_LOGS then take MAX_LOGS logs1 else logs1)
      in (log, st\<lparr>logs := logs2\<rparr>))"


definition jitter :: "runtime \<Rightarrow> rat \<Rightarrow> rat \<Rightarrow> rat" where
  "jitter rt v variance = (let offset = Math_sin_now rt v * variance in v + offset)"

definition calculateProfit :: "TradeRecord \<Rightarrow> rat \<Rightarrow> rat \<times> rat" where
  "calculateProfit trade exitPrice' =
     (let direction = (if trade_type trade = Long then 1 else - 1);
          profit' = (exitPrice' - entryPrice trade) * quantity trade * direction;
          basis = entryPrice trade * quantity trade;
          profitPercent' = (if basis = 0 then 0 else (profit' / basis) * 100)
      in (round_st profit' 2, round_st profitPercent' 2))"

definition marginUsed :: "state \<Rightarrow> rat" where
  "marginUsed st =
     foldl (\<lambda>acc position.
              (let notional = pos_entryPrice position * pos_quantity position;
                   margin = notional / max (pos_leverage position) 1
               in acc + margin))
           0 (positions (account st))"

definition syncAccountBalances :: "state \<Rightarrow> state" where
  "syncAccountBalances st =
     (let used = marginUsed st
      in st\<lparr>account := (account st)
              \<lparr>acc_availableBalance := round_st (max (acc_totalBalance (account st) - used) 0) 2\<rparr>\<rparr>)"

text \<open>\<open>Array.prototype.findIndex\<close>: the first index whose element passes, \<open>None\<close> for \<open>-1\<close>.\<close>

fun findIndex :: "('a \<Rightarrow> bool) \<Rightarrow> 'a list \<Rightarrow> nat option" where
  "findIndex P [] = None"
| "findIndex P (x # xs) =
     (if P x then Some 0 else (case findIndex P xs of None \<Rightarrow> None | Some i \<Rightarrow> Some (Suc i)))"

text \<open>\<open>xs.splice(i, 1)\<close> leaves the list without its element at \<open>i\<close>.\<close>

definition splice1 :: "nat \<Rightarrow> 'a list \<Rightarrow> 'a list" where
  "splice1 i xs = take i xs @ drop (Suc i) xs"

definition removePosition :: "jsstring \<Rightarrow> state \<Rightarrow> state" where
  "removePosition symbolKey st =
     (case findIndex (\<lambda>pos. pos_symbol pos = symbolKey) (positions (account st)) of
        None \<Rightarrow> st
      | Some index \<Rightarrow>
          st\<lparr>account := (account st)\<lparr>positions := splice1 index (positions (account st))\<rparr>\<rparr>)"

definition getMarketSnapshot :: "runtime \<Rightarrow> state \<Rightarrow> jsstring \<Rightarrow> MarketSnapshot option" where
  "getMarketSnapshot rt st symb =
     (let key = toSymbolKey symb
      in case market st key of
           None \<Rightarrow> None
         | Some base \<Rightarrow>
             (let drift = jitter rt 0 (mb_price base * (25 / 10000));
                  price = round_st (mb_price base + drift) 2;
                  referencePrice = mb_price base - mb_priceChange24h base;
                  change = round_st (price - referencePrice) 2;
                  percent = (if referencePrice = 0 then 0
                             else round_st ((change / referencePrice) * 100) 2)
              in Some \<lparr> ms_symbol = take (length key - 4) key @ lit ''/'' @ drop (length key - 4) key,
                         ms_price = price,
                         ms_priceChange24h = change,
                         ms_priceChangePercent24h = percent,
                         ms_high24h = mb_high24h base,
                         ms_low24h = mb_low24h base,
                         ms_volume24h = mb_volume24h base,
                         ms_timestamp = Date_toISOString_now rt \<rparr>))"

text \<open>The Arabic texts of the activity log, as their code units.\<close>

definition msg_trade_closed :: jsstring where
  "msg_trade_closed =
     [1578, 1605, 32, 1573, 1594, 1604, 1575, 1602, 32, 1589, 1601, 1602, 1577, 32]"

definition msg_profit :: jsstring where
  "msg_profit = [1575, 1604, 1585, 1576, 1581, 58, 32]"

definition msg_settings_updated :: jsstring where
  "msg_settings_updated =
     [1578, 1605, 32, 1578, 1581, 1583, 1610, 1579, 32, 1573, 1593, 1583, 1575, 1583, 1575,
      1578, 32, 1575, 1604, 1585, 1608, 1576, 1608, 1578, 32, 1576, 1606, 1580, 1575, 1581]"

definition msg_settings_saved :: jsstring where
  "msg_settings_saved =
     [1578, 1605, 32, 1581, 1601, 1592, 32, 1575, 1604, 1578, 1593, 1583, 1610, 1604, 1575,
      1578, 32, 1575, 1604, 1580, 1583, 1610, 1583, 1577, 32, 1601, 1610, 32, 1575, 1604,
      1573, 1593, 1583, 1575, 1583, 1575, 1578]"




text \<open>
  \<open>closeTrade\<close>: \<open>None\<close> is the \<open>null\<close> of the not-found path. The value returned on success
  is \<open>clone(closedTrade)\<close>, a JSON copy, which for a trade record is the record itself.
\<close>

definition closeTrade :: "runtime \<Rightarrow> jsstring \<Rightarrow> state \<Rightarrow> TradeRecord option \<times> state" where
  "closeTrade rt tradeId st =
     (case findIndex (\<lambda>trade. trade_id trade = tradeId) (trades_active st) of
        None \<Rightarrow> (None, st)
      | Some tradeIndex \<Rightarrow>
          (let trade = trades_active st ! tradeIndex;
               st1 = st\<lparr>trades_active := splice1 tradeIndex (trades_active st)\<rparr>;
               market' = getMarketSnapshot rt st1 (toSymbolKey (symbol trade));
               basePrice = (case market' of None \<Rightarrow> entryPrice trade | Some m \<Rightarrow> ms_price m);
               adjustment = (if trade_type trade = Long then 4 / 10 else - (4 / 10));
               exitPrice' = round_st (basePrice + adjustment) 2;
               (profit', profitPercent') = calculateProfit trade exitPrice';
               closedTrade = trade\<lparr> status := Closed,
                                     exitPrice := Some exitPrice',
                                     exitTime := Some (Date_toISOString_now rt),
                                     profit := Some profit',
                                     profitPercent := Some profitPercent' \<rparr>;
               st2 = st1\<lparr>trades_history := closedTrade # trades_history st1\<rparr>;
               st3 = st2\<lparr>account := (account st2)
                          \<lparr>acc_totalBalance := round_st (acc_totalBalance (account st2) + profit') 2\<rparr>\<rparr>;
               st4 = removePosition (toSymbolKey (symbol trade)) st3;
               st5 = syncAccountBalances st4;
               (log, st6) = addLog rt (if profit' \<ge> 0 then Success else Warning)
                              (msg_trade_closed @ symbol trade)
                              (Some (msg_profit @ toFixed (Number_toString rt) (Finite profit') 2
                                     @ lit ''$ ('' @ toFixed (Number_toString rt) (Finite profitPercent') 2
                                     @ lit ''%)''))
                              st5
           in (Some closedTrade, st6)))"

text \<open>
  \<open>closeAllTrades\<close> walks a copy of the active list and closes each trade by its id; the
  \<open>i\<close>-th call of \<open>closeTrade\<close> reads the runtime \<open>rts i\<close>.
\<close>

fun closeAllTrades_loop ::
  "(nat \<Rightarrow> runtime) \<Rightarrow> nat \<Rightarrow> TradeRecord list \<Rightarrow> TradeRecord list \<Rightarrow> state
     \<Rightarrow> TradeRecord list \<times> state" where
  "closeAllTrades_loop rts i [] results st = (results, st)"
| "closeAllTrades_loop rts i (trade # rest) results st =
     (case closeTrade (rts i) (trade_id trade) st of
        (None, st') \<Rightarrow> closeAllTrades_loop rts (Suc i) rest results st'
      | (Some result, st') \<Rightarrow> closeAllTrades_loop rts (Suc i) rest (results @ [result]) st')"

definition closeAllTrades :: "(nat \<Rightarrow> runtime) \<Rightarrow> state \<Rightarrow> TradeRecord list \<times> state" where
  "closeAllTrades rts st = closeAllTrades_loop rts 0 (trades_active st) [] st"

section \<open>Statistics\<close>

record summaryStats =
  totalBalance :: rat
  todayProfit :: rat
  todayProfitPercent :: rat
  activeTrades :: nat
  successRate :: rat

record detailedStats = summaryStats +
  totalTrades :: nat
  winRate :: rat
  avgProfit :: rat
  avgLoss :: rat
  bestTrade :: number
  worstTrade :: number
  totalVolume :: int

text \<open>\<open>getSummaryStats\<close> of state.ts.\<close>

definition getSummaryStats :: "runtime \<Rightarrow> state \<Rightarrow> summaryStats" where
  "getSummaryStats rt st =
     (let closedToday = filter (\<lambda>trade.
             (case exitTime trade of
                None \<Rightarrow> False
              | Some t \<Rightarrow>
                  if t = [] then False
                  else (case Date_getTime rt t of
                          None \<Rightarrow> False
                        | Some ms \<Rightarrow> Date_now rt - ms \<le> 24 * 60 * 60 * 1000)))
             (trades_history st);
          todayProfit' = foldl (\<lambda>sum trade. sum + profit_or_0 trade) 0 closedToday;
          totalClosed = length (trades_history st);
          winningTrades = length (filter (\<lambda>trade. profit_or_0 trade > 0) (trades_history st));
          successRate' = (if totalClosed = 0 then 0
             else (of_nat winningTrades / of_nat totalClosed) * 100)
      in \<lparr> totalBalance = round_st (acc_totalBalance (account st)) 2,
           todayProfit = round_st todayProfit' 2,
           todayProfitPercent = round_st
             (if acc_totalBalance (account st) = 0 then 0
              else (todayProfit' / acc_totalBalance (account st)) * 100) 2,
           activeTrades = length (trades_active st),
           successRate = round_st successRate' 2 \<rparr>)"

text \<open>
  \<open>getDetailedStats\<close> of state.ts. Its \<open>closedTrades\<close> is the whole history list: the mock
  store does not look at the status.
\<close>

definition getDetailedStats :: "runtime \<Rightarrow> state \<Rightarrow> detailedStats" where
  "getDetailedStats rt st =
     (let summary = getSummaryStats rt st;
          closedTrades = trades_history st;
          totalTrades' = length closedTrades + length (trades_active st);
          winningTrades = filter (\<lambda>trade. profit_or_0 trade > 0) closedTrades;
          losingTrades = filter (\<lambda>trade. profit_or_0 trade < 0) closedTrades;
          avgProfit' = (if length winningTrades = 0 then 0
             else foldl (\<lambda>sum trade. sum + profit_or_0 trade) 0 winningTrades
                    / of_nat (length winningTrades));
          avgLoss' = (if length losingTrades = 0 then 0
             else \<bar>foldl (\<lambda>sum trade. sum + profit_or_0 trade) 0 losingTrades
                    / of_nat (length losingTrades)\<bar>);
          bestTrade' = foldl (\<lambda>mx trade. Math_max mx (profit_or_NegInfinity trade))
                         (Finite 0) closedTrades;
          worstTrade' = foldl (\<lambda>mn trade. Math_min mn (profit_or_Infinity trade))
                          (Finite 0) closedTrades;
          totalVolume' = foldl (\<lambda>sum trade.
                           (let notional = entryPrice trade * quantity trade in sum + notional))
                         0 closedTrades;
          winRate' = (if length closedTrades = 0 then 0
             else (of_nat (length winningTrades) / of_nat (length closedTrades)) * 100)
      in summaryStats.extend summary
           \<lparr> totalTrades = totalTrades',
             winRate = round_st winRate' 2,
             avgProfit = round_st avgProfit' 2,
             avgLoss = round_st avgLoss' 2,
             bestTrade = round_st_number bestTrade' 2,
             worstTrade = round_st_number worstTrade' 2,
             totalVolume = Math_round totalVolume' \<rparr>)"

text \<open>
  \<open>BinanceFuturesService.getDetailedStats\<close> after its two awaited calls: \<open>summary\<close> is
  what \<open>getSummaryStats()\<close> returned and \<open>history\<close> what
  \<open>getTradesHistory(DEFAULT_HISTORY_LIMIT * 2)\<close> returned.
\<close>

definition BinanceFuturesService_getDetailedStats ::
  "summaryStats \<Rightarrow> TradeRecord list \<Rightarrow> detailedStats" where
  "BinanceFuturesService_getDetailedStats summary history =
     (let closedTrades = filter (\<lambda>trade. status trade = Closed) history;
          totalTrades' = length closedTrades + activeTrades summary;
          wins = filter (\<lambda>trade. profit_or_0 trade > 0) closedTrades;
          losses = filter (\<lambda>trade. profit_or_0 trade < 0) closedTrades;
          avgProfit' = (if length wins = 0 then 0
             else foldl (\<lambda>sum trade. sum + profit_or_0 trade) 0 wins / of_nat (length wins));
          avgLoss' = (if length losses = 0 then 0
             else \<bar>foldl (\<lambda>sum trade. sum + profit_or_0 trade) 0 losses
                    / of_nat (length losses)\<bar>);
          bestTrade' = foldl (\<lambda>mx trade. Math_max mx (profit_or_NegInfinity trade))
                         (Finite 0) closedTrades;
          worstTrade' = foldl (\<lambda>mn trade. Math_min mn (profit_or_Infinity trade))
                          (Finite 0) closedTrades;
          totalVolume' = foldl (\<lambda>sum trade. sum + entryPrice trade * quantity trade)
                           0 closedTrades
      in summaryStats.extend summary
           \<lparr> totalTrades = totalTrades',
             winRate = (if length closedTrades = 0 then 0
                else roundNumber ((of_nat (length wins) / of_nat (length closedTrades)) * 100) 2),
             avgProfit = roundNumber avgProfit' 2,
             avgLoss = roundNumber avgLoss' 2,
             bestTrade = roundNumber_number bestTrade' 2,
             worstTrade = roundNumber_number worstTrade' 2,
             totalVolume = Math_round totalVolume' \<rparr>)"

section \<open>The exchange adapter (binance/service.ts)\<close>

definition QUOTE_ASSETS :: "jsstring list" where
  "QUOTE_ASSETS =
     [lit ''USDT'', lit ''USDC'', lit ''BUSD'', lit ''TUSD'', lit ''FDUSD'', lit ''BTC'',
      lit ''ETH'', lit ''BNB'', lit ''TRY'', lit ''EUR'', lit ''AUD'', lit ''GBP'', lit ''DAI'',
      lit ''BRL'', lit ''IDR'']"

text \<open>The loop of \<open>formatDisplaySymbol\<close> over the quote assets that are left.\<close>

fun formatDisplaySymbol_loop :: "jsstring list \<Rightarrow> jsstring \<Rightarrow> jsstring" where
  "formatDisplaySymbol_loop [] s = s"
| "formatDisplaySymbol_loop (quote # rest) s =
     (if endsWith s quote
      then (let base = take (length s - length quote) s in base @ lit ''/'' @ quote)
      else formatDisplaySymbol_loop rest s)"

definition formatDisplaySymbol :: "jsstring \<Rightarrow> jsstring" where
  "formatDisplaySymbol s = formatDisplaySymbol_loop QUOTE_ASSETS s"

definition pairToSymbol :: "jsstring \<Rightarrow> jsstring" where
  "pairToSymbol pair = (if pair = [] then [] else toUpperCase (replace_first 47 pair))"











datatype orderType = MARKET | LIMIT | STOP_MARKET | TAKE_PROFIT_MARKET | STOP | TAKE_PROFIT














section \<open>The settings endpoint\<close>

record AppBindings =
  BINANCE_API_KEY :: "jsstring option"
  BINANCE_API_SECRET :: "jsstring option"
  BINANCE_FUTURES_BASE_URL :: "jsstring option"
  BINANCE_TESTNET :: "jsstring option"
  BINANCE_RECV_WINDOW :: "jsstring option"

text \<open>An optional string in a condition: set and not empty.\<close>

definition truthy_string :: "jsstring option \<Rightarrow> bool" where
  "truthy_string v = (case v of None \<Rightarrow> False | Some s \<Rightarrow> s \<noteq> [])"

text \<open>The mask character, U+2022.\<close>

definition mask_char :: jsstring where
  "mask_char = [8226]"

text \<open>
  The test of \<open>sanitizeIncomingSettings\<close> on a submitted value: a string that starts with
  \<open>__env__\<close>, is blank, or holds the mask character.
\<close>

definition placeholder_value :: "jsvalue option \<Rightarrow> bool" where
  "placeholder_value v =
     (case v of
        Some (JStr s) \<Rightarrow>
          startsWith s (lit ''__env__'') \<or> trim s = [] \<or> includes_str s mask_char
      | _ \<Rightarrow> False)"

definition sanitizeIncomingSettings :: "jsobject \<Rightarrow> AppBindings \<Rightarrow> jsobject" where
  "sanitizeIncomingSettings payload env =
     (let sanitized = payload;
          apiKeyValue = sanitized (lit ''binanceApiKey'');
          sanitized1 = (if truthy_string (BINANCE_API_KEY env) \<or> placeholder_value apiKeyValue
                        then sanitized(lit ''binanceApiKey'' := None) else sanitized);
          apiSecretValue = sanitized1 (lit ''binanceApiSecret'');
          sanitized2 = (if truthy_string (BINANCE_API_SECRET env)
                           \<or> placeholder_value apiSecretValue
                        then sanitized1(lit ''binanceApiSecret'' := None) else sanitized1)
      in sanitized2)"

text \<open>\<open>Boolean(v)\<close>.\<close>

definition Boolean_of :: "jsvalue \<Rightarrow> bool" where
  "Boolean_of v =
     (case v of
        JUndefined \<Rightarrow> False
      | JNull \<Rightarrow> False
      | JBool b \<Rightarrow> b
      | JNum n \<Rightarrow> (n \<noteq> NaN \<and> n \<noteq> Finite 0)
      | JStr s \<Rightarrow> s \<noteq> []
      | JArr _ \<Rightarrow> True
      | JObj _ \<Rightarrow> True)"

text \<open>
  The object \<open>updated\<close> that the loop of \<open>updateSettings\<close> builds, one own property for
  each entry of the input whose value is not \<open>undefined\<close>. An assignment to the property
  name \<open>__proto__\<close> goes to the prototype setter and creates no own property.
\<close>

definition updated_entry :: "runtime \<Rightarrow> state \<Rightarrow> jsstring \<Rightarrow> jsvalue \<Rightarrow> jsvalue" where
  "updated_entry rt st key v =
     (case (settings st key, v) of
        (Some (JNum _), JStr s) \<Rightarrow> JNum (Number_of_string rt s)
      | _ \<Rightarrow> v)"

definition updated_object :: "runtime \<Rightarrow> state \<Rightarrow> jsobject \<Rightarrow> jsobject" where
  "updated_object rt st input =
     (\<lambda>key. case input key of
               None \<Rightarrow> None
             | Some v \<Rightarrow>
                 if v = JUndefined \<or> key = lit ''__proto__'' then None
                 else Some (updated_entry rt st key v))"

text \<open>
  \<open>updated.autoTradingEnabled\<close>: the own property, or else the property of the prototype,
  which is the object assigned to \<open>__proto__\<close> if there was one.
\<close>

definition updated_autoTradingEnabled :: "runtime \<Rightarrow> state \<Rightarrow> jsobject \<Rightarrow> jsvalue" where
  "updated_autoTradingEnabled rt st input =
     (case updated_object rt st input (lit ''autoTradingEnabled'') of
        Some v \<Rightarrow> v
      | None \<Rightarrow>
          (case input (lit ''__proto__'') of
             Some (JObj props) \<Rightarrow>
               (case map_of props (lit ''autoTradingEnabled'') of
                  Some v \<Rightarrow> v
                | None \<Rightarrow> JUndefined)
           | _ \<Rightarrow> JUndefined))"

text \<open>
  \<open>updateSettings\<close>. The value it returns is \<open>getSettings()\<close>, a JSON copy of the settings
  of the store returned here.
\<close>

definition updateSettings :: "runtime \<Rightarrow> jsobject \<Rightarrow> state \<Rightarrow> state" where
  "updateSettings rt input st =
     (let updated = updated_object rt st input;
          st1 = st\<lparr>settings := settings st ++ updated\<rparr>;
          flag = updated_autoTradingEnabled rt st input;
          st2 = (if flag \<noteq> JUndefined
                 then st1\<lparr>autoTrading := \<lparr> enabled = Boolean_of flag, isRunning = Boolean_of flag \<rparr>\<rparr>
                 else st1);
          (log, st3) = addLog rt Success msg_settings_updated (Some msg_settings_saved) st2
      in st3)"


section \<open>The seed of the mock store\<close>

text \<open>
  The demo data state.ts starts from. Its time stamps are offsets from the moment the
  module is loaded; they are written out here for a module loaded at
  2024-01-01T00:00:00.000Z.
\<close>

definition initialActiveTrades_0 :: TradeRecord where
  "initialActiveTrades_0 =
     \<lparr> trade_id = lit ''trade-btc-long-active'',
       userId = userId_demo,
       symbol = lit ''BTC/USDT'',
       trade_type = Long,
       status = Active,
       entryPrice = (6725045 / 100),
       exitPrice = None,
       quantity = (35 / 100),
       leverage = 5,
       stopLoss = 65800,
       takeProfit = 68950,
       profit = None,
       profitPercent = None,
       entryTime = lit ''2023-12-31T18:00:00.000Z'',
       exitTime = None,
       entrySignals = [lit ''RSI'', lit ''Breakout'', lit ''Volume Surge''],
       binanceOrderId = lit ''BN-874523'',
       trailingStopActive = True,
       trailingStopPrice = Some 66840,
       highestPrice = Some (64 / 10),
       lowestPrice = None,
       isAutoTrade = True \<rparr>"

definition initialActiveTrades_1 :: TradeRecord where
  "initialActiveTrades_1 =
     \<lparr> trade_id = lit ''trade-eth-short-active'',
       userId = userId_demo,
       symbol = lit ''ETH/USDT'',
       trade_type = Short,
       status = Active,
       entryPrice = (31856 / 10),
       exitPrice = None,
       quantity = (45 / 10),
       leverage = 4,
       stopLoss = 3260,
       takeProfit = 3050,
       profit = None,
       profitPercent = None,
       entryTime = lit ''2023-12-31T20:00:00.000Z'',
       exitTime = None,
       entrySignals = [lit ''MACD Cross'', lit ''RSI Divergence''],
       binanceOrderId = lit ''BN-874524'',
       trailingStopActive = True,
       trailingStopPrice = Some 3120,
       highestPrice = Some (52 / 10),
       lowestPrice = Some (- (13 / 10)),
       isAutoTrade = True \<rparr>"

definition initialActiveTrades_2 :: TradeRecord where
  "initialActiveTrades_2 =
     \<lparr> trade_id = lit ''trade-sol-long-active'',
       userId = userId_demo,
       symbol = lit ''SOL/USDT'',
       trade_type = Long,
       status = Active,
       entryPrice = (18275 / 100),
       exitPrice = None,
       quantity = 120,
       leverage = 2,
       stopLoss = 172,
       takeProfit = 198,
       profit = None,
       profitPercent = None,
       entryTime = lit ''2023-12-31T23:25:00.000Z'',
       exitTime = None,
       entrySignals = [lit ''Trend Following'', lit ''Breakout''],
       binanceOrderId = lit ''BN-874525'',
       trailingStopActive = False,
       trailingStopPrice = None,
       highestPrice = Some (39 / 10),
       lowestPrice = Some (- (8 / 10)),
       isAutoTrade = False \<rparr>"

definition initialActiveTrades :: "TradeRecord list" where
  "initialActiveTrades = [initialActiveTrades_0, initialActiveTrades_1, initialActiveTrades_2]"

definition initialHistoryTrades_0 :: TradeRecord where
  "initialHistoryTrades_0 =
     \<lparr> trade_id = lit ''trade-btc-long-1'',
       userId = userId_demo,
       symbol = lit ''BTC/USDT'',
       trade_type = Long,
       status = Closed,
       entryPrice = (6520012 / 100),
       exitPrice = Some (6684055 / 100),
       quantity = (4 / 10),
       leverage = 4,
       stopLoss = 64000,
       takeProfit = 67000,
       profit = Some (6557 / 10),
       profitPercent = Some (251 / 100),
       entryTime = lit ''2023-12-30T00:00:00.000Z'',
       exitTime = Some (lit ''2023-12-30T18:00:00.000Z''),
       entrySignals = [lit ''RSI'', lit ''Momentum''],
       binanceOrderId = lit ''BN-873100'',
       trailingStopActive = True,
       trailingStopPrice = Some 66450,
       highestPrice = Some (48 / 10),
       lowestPrice = Some (- (9 / 10)),
       isAutoTrade = True \<rparr>"

definition initialHistoryTrades_1 :: TradeRecord where
  "initialHistoryTrades_1 =
     \<lparr> trade_id = lit ''trade-eth-short-1'',
       userId = userId_demo,
       symbol = lit ''ETH/USDT'',
       trade_type = Short,
       status = Closed,
       entryPrice = (32804 / 10),
       exitPrice = Some (31628 / 10),
       quantity = (32 / 10),
       leverage = 3,
       stopLoss = 3340,
       takeProfit = 3100,
       profit = Some (37699 / 100),
       profitPercent = Some (359 / 100),
       entryTime = lit ''2023-12-28T16:00:00.000Z'',
       exitTime = Some (lit ''2023-12-29T22:00:00.000Z''),
       entrySignals = [lit ''MACD Cross'', lit ''Order Flow''],
       binanceOrderId = lit ''BN-873101'',
       trailingStopActive = False,
       trailingStopPrice = None,
       highestPrice = Some (32 / 10),
       lowestPrice = Some (- (11 / 10)),
       isAutoTrade = True \<rparr>"

definition initialHistoryTrades_2 :: TradeRecord where
  "initialHistoryTrades_2 =
     \<lparr> trade_id = lit ''trade-bnb-long-1'',
       userId = userId_demo,
       symbol = lit ''BNB/USDT'',
       trade_type = Long,
       status = Closed,
       entryPrice = (51225 / 100),
       exitPrice = Some (4981 / 10),
       quantity = 25,
       leverage = 2,
       stopLoss = 490,
       takeProfit = 540,
       profit = Some (- (35375 / 100)),
       profitPercent = Some (- (276 / 100)),
       entryTime = lit ''2023-12-27T00:00:00.000Z'',
       exitTime = Some (lit ''2023-12-28T00:00:00.000Z''),
       entrySignals = [lit ''Trend'', lit ''Volume Spike''],
       binanceOrderId = lit ''BN-873102'',
       trailingStopActive = False,
       trailingStopPrice = None,
       highestPrice = Some (25 / 10),
       lowestPrice = Some (- (34 / 10)),
       isAutoTrade = False \<rparr>"

definition initialHistoryTrades_3 :: TradeRecord where
  "initialHistoryTrades_3 =
     \<lparr> trade_id = lit ''trade-sol-long-1'',
       userId = userId_demo,
       symbol = lit ''SOL/USDT'',
       trade_type = Long,
       status = Closed,
       entryPrice = (1654 / 10),
       exitPrice = Some (1792 / 10),
       quantity = 80,
       leverage = 2,
       stopLoss = 158,
       takeProfit = 182,
       profit = Some (11016 / 10),
       profitPercent = Some (833 / 100),
       entryTime = lit ''2023-12-28T00:00:00.000Z'',
       exitTime = Some (lit ''2023-12-28T16:00:00.000Z''),
       entrySignals = [lit ''Breakout'', lit ''RSI''],
       binanceOrderId = lit ''BN-873103'',
       trailingStopActive = True,
       trailingStopPrice = Some 172,
       highestPrice = Some (75 / 10),
       lowestPrice = Some (- (5 / 10)),
       isAutoTrade = False \<rparr>"

definition initialHistoryTrades_4 :: TradeRecord where
  "initialHistoryTrades_4 =
     \<lparr> trade_id = lit ''trade-xrp-short-1'',
       userId = userId_demo,
       symbol = lit ''XRP/USDT'',
       trade_type = Short,
       status = Closed,
       entryPrice = (62 / 100),
       exitPrice = Some (59 / 100),
       quantity = 1200,
       leverage = 3,
       stopLoss = (64 / 100),
       takeProfit = (58 / 100),
       profit = Some 108,
       profitPercent = Some (435 / 100),
       entryTime = lit ''2023-12-29T12:00:00.000Z'',
       exitTime = Some (lit ''2023-12-30T16:00:00.000Z''),
       entrySignals = [lit ''Order Block'', lit ''Volume Divergence''],
       binanceOrderId = lit ''BN-873104'',
       trailingStopActive = False,
       trailingStopPrice = None,
       highestPrice = Some (49 / 10),
       lowestPrice = Some (- (19 / 10)),
       isAutoTrade = True \<rparr>"

definition initialHistoryTrades :: "TradeRecord list" where
  "initialHistoryTrades = [initialHistoryTrades_0, initialHistoryTrades_1, initialHistoryTrades_2, initialHistoryTrades_3, initialHistoryTrades_4]"

definition initialLogs :: "ActivityLog list" where
  "initialLogs =
     [ \<lparr> log_id = lit ''log-setup'',
         log_userId = userId_demo,
         level = Info,
         message = [1578, 1605, 32, 1578, 1607, 1610, 1574, 1577, 32, 1585, 1608, 1576, 1608, 1578,
         32, 1575, 1604, 1578, 1583, 1575, 1608, 1604, 32, 1576, 1606, 1580,
         1575, 1581],
         details = Some ([1578, 1605, 32, 1578, 1581, 1605, 1610, 1604, 32, 1575, 1604, 1573, 1593, 1583,
         1575, 1583, 1575, 1578, 32, 1575, 1604, 1575, 1601, 1578, 1585, 1575,
         1590, 1610, 1577, 32, 1604, 1604, 1605, 1606, 1589, 1577]),
         timestamp = lit ''2023-12-31T00:00:00.000Z'' \<rparr>,
       \<lparr> log_id = lit ''log-connection'',
         log_userId = userId_demo,
         level = Success,
         message = [1578, 1605, 32, 1575, 1604, 1575, 1578, 1589, 1575, 1604, 32, 1576, 1600, 32,
         66, 105, 110, 97, 110, 99, 101, 32, 40, 84, 101, 115, 116, 110, 101,
         116, 41],
         details = Some ([1578, 1605, 32, 1575, 1604, 1578, 1581, 1602, 1602, 32, 1605, 1606, 32, 1605,
         1601, 1575, 1578, 1610, 1581, 32, 65, 80, 73, 32, 1608, 1573, 1593,
         1583, 1575, 1583, 1575, 1578, 32, 1575, 1604, 1588, 1576, 1603, 1577,
         32, 1575, 1604, 1578, 1580, 1585, 1610, 1576, 1610, 1577]),
         timestamp = lit ''2023-12-31T06:00:00.000Z'' \<rparr>,
       \<lparr> log_id = lit ''log-trade-open'',
         log_userId = userId_demo,
         level = Info,
         message = [1578, 1605, 32, 1601, 1578, 1581, 32, 1589, 1601, 1602, 1577, 32, 1588, 1585,
         1575, 1569, 32, 1593, 1604, 1609, 32, 66, 84, 67, 47, 85, 83, 68, 84],
         details = Some ([1606, 1587, 1576, 1577, 32, 1575, 1604, 1605, 1582, 1575, 1591, 1585, 1577, 32,
         49, 46, 53, 37, 1548, 32, 1578, 1605, 32, 1578, 1601, 1593, 1610, 1604,
         32, 1575, 1604, 1608, 1602, 1601, 32, 1575, 1604, 1605, 1578, 1581,
         1585, 1603]),
         timestamp = lit ''2023-12-31T18:00:00.000Z'' \<rparr>,
       \<lparr> log_id = lit ''log-auto-trading'',
         log_userId = userId_demo,
         level = Success,
         message = [1578, 1605, 32, 1578, 1605, 1603, 1610, 1606, 32, 1575, 1604, 1578, 1583, 1575,
         1608, 1604, 32, 1575, 1604, 1570, 1604, 1610],
         details = Some ([1578, 1605, 32, 1578, 1601, 1593, 1610, 1604, 32, 1575, 1587, 1578, 1585, 1575,
         1578, 1610, 1580, 1610, 1577, 32, 77, 117, 108, 116, 105, 45, 84, 105,
         109, 101, 102, 114, 97, 109, 101, 32, 1608, 32, 65, 73, 32, 84, 114,
         97, 100, 105, 110, 103]),
         timestamp = lit ''2023-12-31T20:00:00.000Z'' \<rparr>,
       \<lparr> log_id = lit ''log-warning'',
         log_userId = userId_demo,
         level = Warning,
         message = [1575, 1585, 1578, 1601, 1575, 1593, 32, 1601, 1610, 32, 1578, 1602, 1604, 1576,
         1575, 1578, 32, 83, 79, 76, 47, 85, 83, 68, 84],
         details = Some ([1578, 1605, 32, 1590, 1576, 1591, 32, 1575, 1604, 1608, 1602, 1601, 32, 1575,
         1604, 1605, 1578, 1581, 1585, 1603, 32, 1593, 1606, 1583, 32, 49, 55,
         57, 46, 50, 48, 32, 1604, 1578, 1602, 1604, 1610, 1604, 32, 1575, 1604,
         1605, 1582, 1575, 1591, 1585]),
         timestamp = lit ''2023-12-31T23:15:00.000Z'' \<rparr>,
       \<lparr> log_id = lit ''log-signal'',
         log_userId = userId_demo,
         level = Info,
         message = [1573, 1588, 1575, 1585, 1577, 32, 65, 73, 32, 1602, 1608, 1610, 1577, 32, 1593,
         1604, 1609, 32, 69, 84, 72, 47, 85, 83, 68, 84],
         details = Some ([1606, 1587, 1576, 1577, 32, 1575, 1604, 1579, 1602, 1577, 32, 56, 50, 37, 32,
         1576, 1606, 1575, 1569, 1611, 32, 1593, 1604, 1609, 32, 1578, 1581,
         1604, 1610, 1604, 32, 1575, 1604, 1586, 1582, 1605]),
         timestamp = lit ''2023-12-31T23:40:00.000Z'' \<rparr> ]"

definition marketBaselines :: "jsstring \<Rightarrow> MarketBase option" where
  "marketBaselines = map_of
     [ (lit ''BTCUSDT'',
        \<lparr> mb_price = 67420, mb_priceChange24h = 520, mb_high24h = 68450,
          mb_low24h = 66180, mb_volume24h = 28500000000 \<rparr>),
       (lit ''ETHUSDT'',
        \<lparr> mb_price = 3175, mb_priceChange24h = (- 85), mb_high24h = 3290,
          mb_low24h = 3120, mb_volume24h = 15800000000 \<rparr>),
       (lit ''BNBUSDT'',
        \<lparr> mb_price = 502, mb_priceChange24h = (- (85 / 10)), mb_high24h = 515,
          mb_low24h = 496, mb_volume24h = 1840000000 \<rparr>),
       (lit ''SOLUSDT'',
        \<lparr> mb_price = 188, mb_priceChange24h = (64 / 10), mb_high24h = 195,
          mb_low24h = 178, mb_volume24h = 3200000000 \<rparr>),
       (lit ''XRPUSDT'',
        \<lparr> mb_price = (6 / 10), mb_priceChange24h = (18 / 1000), mb_high24h = (62 / 100),
          mb_low24h = (58 / 100), mb_volume24h = 1200000000 \<rparr>) ]"

definition accountState :: AccountState where
  "accountState =
     \<lparr> acc_connected = True,
       acc_totalBalance = 125400,
       acc_availableBalance = 87200,
       acc_message = Some ([1610, 1578, 1605, 32, 1578, 1581, 1583, 1610, 1579, 32, 1576, 1610, 1575, 1606,
         1575, 1578, 32, 1575, 1604, 1581, 1587, 1575, 1576, 32, 1603, 1604, 32,
         49, 48, 32, 1579, 1608, 1575, 1606, 1613, 46]),
       acc_error = None,
       positions =
         [ \<lparr> pos_symbol = lit ''BTCUSDT'', pos_side = LONG, pos_entryPrice = (6725045 / 100),
              pos_quantity = (35 / 100), pos_leverage = 5 \<rparr>,
           \<lparr> pos_symbol = lit ''ETHUSDT'', pos_side = SHORT, pos_entryPrice = (31856 / 10),
              pos_quantity = (45 / 10), pos_leverage = 4 \<rparr>,
           \<lparr> pos_symbol = lit ''SOLUSDT'', pos_side = LONG, pos_entryPrice = (18275 / 100),
              pos_quantity = 120, pos_leverage = 2 \<rparr> ] \<rparr>"

definition defaultSettings :: jsobject where
  "defaultSettings = map_of
     [ (lit ''id'', JStr (lit ''settings-demo'')),
       (lit ''userId'', JStr userId_demo),
       (lit ''binanceApiKey'', JStr (lit ''demo-api-key'')),
       (lit ''binanceApiSecret'', JStr (lit ''demo-secret'')),
       (lit ''customApiUrl'', JStr (lit ''https://demo.bot-enhancer.api'')),
       (lit ''isTestnet'', JBool True),
       (lit ''isActive'', JBool True),
       (lit ''hedgingMode'', JBool True),
       (lit ''maxRiskPerTrade'', JNum (Finite (15 / 10))),
       (lit ''riskRewardRatio'', JNum (Finite (22 / 10))),
       (lit ''maShortPeriod'', JNum (Finite 21)),
       (lit ''maLongPeriod'', JNum (Finite 200)),
       (lit ''rsiPeriod'', JNum (Finite 14)),
       (lit ''rsiOverbought'', JNum (Finite 70)),
       (lit ''rsiOversold'', JNum (Finite 30)),
       (lit ''macdFast'', JNum (Finite 12)),
       (lit ''macdSlow'', JNum (Finite 26)),
       (lit ''macdSignal'', JNum (Finite 9)),
       (lit ''tradingPairs'', JArr [JStr (lit ''BTC/USDT''), JStr (lit ''ETH/USDT''), JStr (lit ''BNB/USDT''), JStr (lit ''SOL/USDT''), JStr (lit ''XRP/USDT'')]),
       (lit ''telegramBotToken'', JStr (lit ''demo-telegram-token'')),
       (lit ''telegramChatId'', JStr (lit ''123456789'')),
       (lit ''emailNotifications'', JBool True),
       (lit ''notificationEmail'', JStr (lit ''alerts@bot-enhancer.ai'')),
       (lit ''autoTradingEnabled'', JBool True),
       (lit ''minSignalStrength'', JNum (Finite 70)),
       (lit ''maxDailyTrades'', JNum (Finite 12)),
       (lit ''tradeCooldownMinutes'', JNum (Finite 15)),
       (lit ''trailingStopEnabled'', JBool True),
       (lit ''trailingStopPercent'', JNum (Finite (8 / 10))),
       (lit ''trailingStopActivationPercent'', JNum (Finite (12 / 10))),
       (lit ''multiTimeframeEnabled'', JBool True),
       (lit ''timeframes'', JArr [JStr (lit ''15m''), JStr (lit ''1h''), JStr (lit ''4h'')]),
       (lit ''weeklyReportEnabled'', JBool True),
       (lit ''monthlyReportEnabled'', JBool True),
       (lit ''reportDay'', JNum (Finite 0)),
       (lit ''aiTradingEnabled'', JBool True),
       (lit ''aiMinConfidence'', JNum (Finite 75)),
       (lit ''aiMinSignalStrength'', JNum (Finite 65)),
       (lit ''aiRequiredSignals'', JNum (Finite 3)),
       (lit ''advancedStrategiesEnabled'', JBool True),
       (lit ''enabledStrategies'', JArr [JStr (lit ''breakout''), JStr (lit ''momentum''), JStr (lit ''meanReversion''), JStr (lit ''swing'')]),
       (lit ''strategyMinConfidence'', JNum (Finite 62)),
       (lit ''strategyMinStrength'', JNum (Finite 54)),
       (lit ''requireStrategyConsensus'', JBool False),
       (lit ''breakoutLookbackPeriod'', JNum (Finite 20)),
       (lit ''breakoutThreshold'', JNum (Finite (16 / 10))),
       (lit ''breakoutVolumeMultiplier'', JNum (Finite (15 / 10))),
       (lit ''scalpingProfitTarget'', JNum (Finite (45 / 100))),
       (lit ''scalpingStopLoss'', JNum (Finite (25 / 100))),
       (lit ''scalpingMaxHoldingPeriod'', JNum (Finite 12)),
       (lit ''momentumLookbackPeriod'', JNum (Finite 14)),
       (lit ''momentumThreshold'', JNum (Finite (18 / 10))),
       (lit ''meanReversionBollingerPeriod'', JNum (Finite 20)),
       (lit ''meanReversionBollingerStdDev'', JNum (Finite 2)),
       (lit ''meanReversionOversoldLevel'', JNum (Finite 25)),
       (lit ''meanReversionOverboughtLevel'', JNum (Finite 75)),
       (lit ''swingPeriod'', JNum (Finite 10)),
       (lit ''swingMinSize'', JNum (Finite (22 / 10))),
       (lit ''swingConfirmationCandles'', JNum (Finite 3)),
       (lit ''gridLevels'', JNum (Finite 6)),
       (lit ''gridSpacing'', JNum (Finite (9 / 10))),
       (lit ''gridOrderSize'', JNum (Finite 50)),
       (lit ''smartPositionSizingEnabled'', JBool True),
       (lit ''atrPeriod'', JNum (Finite 14)),
       (lit ''atrMultiplier'', JNum (Finite (17 / 10))),
       (lit ''maxPositionPercent'', JNum (Finite 12)),
       (lit ''minPositionPercent'', JNum (Finite (12 / 10))),
       (lit ''volatilityAdjustment'', JBool True),
       (lit ''marketFilterEnabled'', JBool True),
       (lit ''avoidHighVolatility'', JBool True),
       (lit ''maxVolatilityPercent'', JNum (Finite 4)),
       (lit ''trendFilterEnabled'', JBool True),
       (lit ''minTrendStrength'', JNum (Finite 32)),
       (lit ''avoidRangingMarket'', JBool True),
       (lit ''accountProtectionEnabled'', JBool True),
       (lit ''maxDailyLossPercent'', JNum (Finite 3)),
       (lit ''maxConcurrentTrades'', JNum (Finite 4)),
       (lit ''pauseAfterConsecutiveLosses'', JNum (Finite 2)) ]"

definition autoTradingState :: AutoTradingState where
  "autoTradingState = \<lparr> enabled = True, isRunning = True \<rparr>"

definition initial_state :: state where
  "initial_state =
     \<lparr> settings = defaultSettings,
       trades_active = initialActiveTrades,
       trades_history = initialHistoryTrades,
       logs = initialLogs,
       market = marketBaselines,
       account = accountState,
       autoTrading = autoTradingState \<rparr>"

section \<open>Decimal numerals\<close>

text \<open>
  The number that a decimal numeral denotes: digits, and optionally a point and more
  digits. Anything else denotes nothing.
\<close>

definition isDigit :: "nat \<Rightarrow> bool" where
  "isDigit c = (48 \<le> c \<and> c \<le> 57)"

definition digits_value :: "jsstring \<Rightarrow> nat" where
  "digits_value s = foldl (\<lambda>acc c. 10 * acc + (c - 48)) 0 s"

definition decimal_value :: "jsstring \<Rightarrow> rat option" where
  "decimal_value s =
     (let ip = takeWhile (\<lambda>c. c \<noteq> 46) s;
          rest = dropWhile (\<lambda>c. c \<noteq> 46) s
      in if ip = [] \<or> \<not> list_all isDigit ip then None
         else (case rest of
                 [] \<Rightarrow> Some (of_nat (digits_value ip))
               | _ # fp \<Rightarrow>
                   if fp = [] \<or> \<not> list_all isDigit fp then None
                   else Some (of_nat (digits_value ip)
                              + of_nat (digits_value fp) / 10 ^ length fp)))"

section \<open>A sample runtime\<close>

text \<open>
  A runtime for the concrete instances below. Its clock stands at
  2024-01-01T00:00:00.000Z and its sine reading is 0; it knows the exit times of the
  seed; its \<open>parseFloat\<close> reads signed decimal numerals, the form in which the exchange
  sends quantities, and is NaN elsewhere.
\<close>

definition sample_parseFloat :: "jsstring \<Rightarrow> number" where
  "sample_parseFloat s =
     (case s of
        [] \<Rightarrow> NaN
      | c # cs \<Rightarrow>
          if c = 45
          then (case decimal_value cs of None \<Rightarrow> NaN | Some v \<Rightarrow> Finite (- v))
          else (case decimal_value s of None \<Rightarrow> NaN | Some v \<Rightarrow> Finite v))"

definition sample_runtime :: runtime where
  "sample_runtime =
     \<lparr> Math_sin_now = (\<lambda>x. 0),
       Date_now = 1704067200000,
       Date_toISOString_now = lit ''2024-01-01T00:00:00.000Z'',
       Date_getTime = map_of
         [ (lit ''2023-12-30T18:00:00.000Z'', 1703959200000),
           (lit ''2023-12-29T22:00:00.000Z'', 1703887200000),
           (lit ''2023-12-28T00:00:00.000Z'', 1703721600000),
           (lit ''2023-12-28T16:00:00.000Z'', 1703779200000),
           (lit ''2023-12-30T16:00:00.000Z'', 1703952000000),
           (lit ''2024-01-01T00:00:00.000Z'', 1704067200000) ],
       Math_random_id = lit ''k3x9q2ab'',
       Number_toString = (\<lambda>x. []),
       Number_of_string = sample_parseFloat,
       parseFloat = sample_parseFloat \<rparr>"

definition sample_summary :: summaryStats where
  "sample_summary =
     \<lparr> totalBalance = 125400, todayProfit = 0, todayProfitPercent = 0,
       activeTrades = 3, successRate = 80 \<rparr>"

section \<open>The balance relation\<close>

text \<open>
  What \<open>syncAccountBalances\<close> establishes: the available balance is the total balance
  less the margin in use, not below 0, rounded to two decimals.
\<close>

definition balances_synced :: "state \<Rightarrow> bool" where
  "balances_synced st =
     (acc_availableBalance (account st)
        = round_st (max (acc_totalBalance (account st) - marginUsed st) 0) 2)"

section \<open>A sample settings update\<close>

text \<open>
  No secret comes from the environment. The payload is what the settings form sends back
  when the user changes two fields and leaves the secrets alone: the key as it was
  displayed, masked but for its last four characters, and an empty secret.
\<close>

definition sample_env :: AppBindings where
  "sample_env =
     \<lparr> BINANCE_API_KEY = None, BINANCE_API_SECRET = None, BINANCE_FUTURES_BASE_URL = None,
       BINANCE_TESTNET = None, BINANCE_RECV_WINDOW = None \<rparr>"

definition masked_payload :: jsobject where
  "masked_payload = map_of
     [ (lit ''binanceApiKey'',
          JStr ([8226, 8226, 8226, 8226, 8226, 8226, 8226, 8226] @ lit ''-key'')),
       (lit ''binanceApiSecret'', JStr []),
       (lit ''maxDailyTrades'', JStr (lit ''20'')),
       (lit ''isTestnet'', JBool False) ]"

section \<open>A sample exchange\<close>




section \<open>Rounding\<close>

lemma round_st_values:
  "round_st (100 / 3) 2 = 3333 / 100" "round_st 100 2 = 100" "round_st 50 2 = 50"
  "round_st (- 50) 2 = - 50" "round_st 0 2 = 0"
  by code_simp+

lemma roundNumber_round_st: "roundNumber v p = round_st v p"
  by (simp add: roundNumber_def round_st_def)

lemma roundNumber_number_round_st: "roundNumber_number v p = round_st_number v p"
  by (simp add: roundNumber_number_def round_st_number_def roundNumber_round_st
      split: number.splits)

section \<open>The detailed statistics\<close>

text \<open>
  C1. A history of exactly three closed trades with profits 100, -50 and 0 (whatever
  their other fields are) gives, in the mock store and in the exchange adapter alike,
  winRate 33.33, avgProfit 100, avgLoss 50, bestTrade 100, worstTrade -50, and a
  totalVolume that is the sum of entryPrice times quantity over the three trades, rounded
  to an integer.
\<close>

theorem detailed_stats_scenario:
  "(let h = [t1\<lparr>status := Closed, profit := Some 100\<rparr>,
             t2\<lparr>status := Closed, profit := Some (- 50)\<rparr>,
             t3\<lparr>status := Closed, profit := Some 0\<rparr>];
        volume = Math_round (entryPrice t1 * quantity t1 + entryPrice t2 * quantity t2
                              + entryPrice t3 * quantity t3);
        d = getDetailedStats rt (st\<lparr>trades_history := h\<rparr>);
        d' = BinanceFuturesService_getDetailedStats summary h
    in winRate d = 3333 / 100 \<and> avgProfit d = 100 \<and> avgLoss d = 50
       \<and> bestTrade d = Finite 100 \<and> worstTrade d = Finite (- 50) \<and> totalVolume d = volume
       \<and> winRate d' = 3333 / 100 \<and> avgProfit d' = 100 \<and> avgLoss d' = 50
       \<and> bestTrade d' = Finite 100 \<and> worstTrade d' = Finite (- 50) \<and> totalVolume d' = volume)"
  by (simp add: getDetailedStats_def BinanceFuturesService_getDetailedStats_def Let_def
      summaryStats.defs profit_or_0_def profit_or_NegInfinity_def profit_or_Infinity_def
      round_st_number_def roundNumber_round_st roundNumber_number_round_st round_st_values)

lemma Math_round_of_int: "Math_round (of_int k) = k"
  unfolding Math_round_def by (rule floor_unique) simp_all


lemma Math_round_mono: "x \<le> y \<Longrightarrow> Math_round x \<le> Math_round y"
  unfolding Math_round_def by (rule floor_mono) simp

lemma round_st_mono: "x \<le> y \<Longrightarrow> round_st x p \<le> round_st y p"
  unfolding round_st_def Let_def
  by (intro divide_right_mono) (simp_all add: Math_round_mono mult_right_mono)

lemma round_st_percent:
  assumes "0 \<le> x" "x \<le> 100"
  shows "0 \<le> round_st x 2 \<and> round_st x 2 \<le> 100"
  using round_st_mono [OF assms(1), of 2] round_st_mono [OF assms(2), of 2]
  by (simp add: round_st_values)

subsection \<open>Best and worst trade\<close>














subsection \<open>Win rate\<close>

lemma ratio_percent:
  "0 \<le> (of_nat (length (filter P xs)) / of_nat (length xs) * 100 :: rat)
   \<and> (of_nat (length (filter P xs)) / of_nat (length xs) * 100 :: rat) \<le> 100"
proof (cases "xs = []")
  case True
  then show ?thesis by simp
next
  case False
  have "(of_nat (length (filter P xs)) :: rat) \<le> of_nat (length xs)"
    by simp
  then have "(of_nat (length (filter P xs)) / of_nat (length xs) :: rat) \<le> 1"
    using False by (simp add: divide_le_eq_1)
  from mult_right_mono [OF this, of 100] show ?thesis by simp
qed

lemma winRate_getDetailedStats:
  "winRate (getDetailedStats rt st) =
     round_st (if length (trades_history st) = 0 then 0
               else of_nat (length (filter (\<lambda>trade. profit_or_0 trade > 0) (trades_history st)))
                      / of_nat (length (trades_history st)) * 100) 2"
  by (simp add: getDetailedStats_def Let_def summaryStats.defs)

lemma winRate_service:
  "winRate (BinanceFuturesService_getDetailedStats summary history) =
     (let closedTrades = filter (\<lambda>trade. status trade = Closed) history
      in if length closedTrades = 0 then 0
         else round_st (of_nat (length (filter (\<lambda>trade. profit_or_0 trade > 0) closedTrades))
                      / of_nat (length closedTrades) * 100) 2)"
  by (simp add: BinanceFuturesService_getDetailedStats_def Let_def summaryStats.defs
      roundNumber_round_st)

lemma three_seed_trades:
  "length (filter (\<lambda>trade. status trade = Closed)
     [initialHistoryTrades_0, initialHistoryTrades_1, initialHistoryTrades_2]) = 3"
  "length (filter (\<lambda>trade. profit_or_0 trade > 0) (filter (\<lambda>trade. status trade = Closed)
     [initialHistoryTrades_0, initialHistoryTrades_1, initialHistoryTrades_2])) = 2"
  by (simp_all add: profit_or_0_def initialHistoryTrades_0_def initialHistoryTrades_1_def
      initialHistoryTrades_2_def)

text \<open>
  C5, as stated, asks that winRate be 100 times wins over closed. The first three trades
  of the seed history are closed and two of them are wins (\<open>three_seed_trades\<close>); on this
  history the adapter reports 66.67, which is not 100 * 2 / 3.
\<close>

theorem winRate_exact_counterexample:
  "winRate (BinanceFuturesService_getDetailedStats sample_summary
      [initialHistoryTrades_0, initialHistoryTrades_1, initialHistoryTrades_2]) = 6667 / 100
   \<and> winRate (BinanceFuturesService_getDetailedStats sample_summary
      [initialHistoryTrades_0, initialHistoryTrades_1, initialHistoryTrades_2]) \<noteq> 100 * 2 / 3"
proof -
  have "round_st (200 / 3) 2 = 6667 / 100"
    by code_simp
  then show ?thesis
    by (simp add: winRate_service Let_def profit_or_0_def initialHistoryTrades_0_def
        initialHistoryTrades_1_def initialHistoryTrades_2_def)
qed

text \<open>
  C5, amended. For every trade list, in the mock store and in the exchange adapter,
  winRate lies in [0, 100]; it is 0 when there is no closed trade, and otherwise it is
  100 times the number of closed trades with a profit above 0 over the number of closed
  trades, rounded to two decimals (a half going up).
\<close>

theorem winRate_rounded:
  "(let closedTrades = trades_history st;
        wins = filter (\<lambda>trade. profit_or_0 trade > 0) closedTrades;
        d = getDetailedStats rt st;
        closedTrades' = filter (\<lambda>trade. status trade = Closed) history;
        wins' = filter (\<lambda>trade. profit_or_0 trade > 0) closedTrades';
        d' = BinanceFuturesService_getDetailedStats summary history
    in 0 \<le> winRate d \<and> winRate d \<le> 100
       \<and> (length closedTrades = 0 \<longrightarrow> winRate d = 0)
       \<and> (length closedTrades \<noteq> 0 \<longrightarrow>
            winRate d = round_st (100 * of_nat (length wins) / of_nat (length closedTrades)) 2)
       \<and> 0 \<le> winRate d' \<and> winRate d' \<le> 100
       \<and> (length closedTrades' = 0 \<longrightarrow> winRate d' = 0)
       \<and> (length closedTrades' \<noteq> 0 \<longrightarrow>
            winRate d' = round_st (100 * of_nat (length wins') / of_nat (length closedTrades')) 2))"
proof -
  let ?c = "filter (\<lambda>trade. status trade = Closed) history"
  have a: "0 \<le> winRate (getDetailedStats rt st) \<and> winRate (getDetailedStats rt st) \<le> 100"
    unfolding winRate_getDetailedStats
    by (rule round_st_percent) (use ratio_percent in \<open>auto\<close>)
  have "0 \<le> round_st (of_nat (length (filter (\<lambda>trade. profit_or_0 trade > 0) ?c))
                         / of_nat (length ?c) * 100) 2
        \<and> round_st (of_nat (length (filter (\<lambda>trade. profit_or_0 trade > 0) ?c))
                         / of_nat (length ?c) * 100) 2 \<le> 100"
    by (rule round_st_percent) (use ratio_percent in \<open>blast+\<close>)
  then have b: "0 \<le> winRate (BinanceFuturesService_getDetailedStats summary history)
           \<and> winRate (BinanceFuturesService_getDetailedStats summary history) \<le> 100"
    unfolding winRate_service Let_def by simp
  show ?thesis
    using a b
    by (simp add: Let_def winRate_getDetailedStats winRate_service round_st_values
        mult.commute)
qed

text \<open>
  The seed history has four wins among five closed trades, winRate 80; an empty history
  has winRate 0.
\<close>

theorem winRate_rounded_witness:
  "winRate (getDetailedStats sample_runtime initial_state) = 80
   \<and> winRate (BinanceFuturesService_getDetailedStats sample_summary initialHistoryTrades) = 80
   \<and> winRate (getDetailedStats sample_runtime (initial_state\<lparr>trades_history := []\<rparr>)) = 0
   \<and> winRate (BinanceFuturesService_getDetailedStats sample_summary []) = 0"
proof -
  have pr: "profit_or_0 initialHistoryTrades_0 = 65570 / 100"
    "profit_or_0 initialHistoryTrades_1 = 37699 / 100"
    "profit_or_0 initialHistoryTrades_2 = - (35375 / 100)"
    "profit_or_0 initialHistoryTrades_3 = 11016 / 10"
    "profit_or_0 initialHistoryTrades_4 = 108"
    and cl: "status initialHistoryTrades_0 = Closed" "status initialHistoryTrades_1 = Closed"
    "status initialHistoryTrades_2 = Closed" "status initialHistoryTrades_3 = Closed"
    "status initialHistoryTrades_4 = Closed"
    by (simp_all add: profit_or_0_def initialHistoryTrades_0_def initialHistoryTrades_1_def
        initialHistoryTrades_2_def initialHistoryTrades_3_def initialHistoryTrades_4_def)
  have r: "round_st (100 * 4 / 5) 2 = 80"
    by code_simp
  have len: "length (trades_history initial_state) = 5"
    "length (filter (\<lambda>trade. profit_or_0 trade > 0) (trades_history initial_state)) = 4"
    "length (filter (\<lambda>trade. status trade = Closed) initialHistoryTrades) = 5"
    "length (filter (\<lambda>trade. profit_or_0 trade > 0)
       (filter (\<lambda>trade. status trade = Closed) initialHistoryTrades)) = 4"
    by (simp_all add: initial_state_def initialHistoryTrades_def pr cl)
  from winRate_rounded [of initial_state sample_runtime initialHistoryTrades sample_summary,
      unfolded Let_def len] r
  have seed: "winRate (getDetailedStats sample_runtime initial_state) = 80"
    "winRate (BinanceFuturesService_getDetailedStats sample_summary initialHistoryTrades) = 80"
    by simp_all
  from winRate_rounded [of "initial_state\<lparr>trades_history := []\<rparr>" sample_runtime "[]"
      sample_summary, unfolded Let_def]
  have none: "winRate (getDetailedStats sample_runtime (initial_state\<lparr>trades_history := []\<rparr>)) = 0"
    "winRate (BinanceFuturesService_getDetailedStats sample_summary []) = 0"
    by simp_all
  from seed none show ?thesis by blast
qed


section \<open>Display symbols and wire symbols\<close>

lemma replace_first_append:
  "sep \<notin> set b \<Longrightarrow> replace_first sep (b @ sep # q) = b @ q"
  by (induction b) auto

lemma toUpperCase_append: "toUpperCase (a @ b) = toUpperCase a @ toUpperCase b"
  by (simp add: toUpperCase_def)

lemma toUpperCase_no_lower:
  "list_all (\<lambda>c. \<not> (97 \<le> c \<and> c \<le> 122)) s \<Longrightarrow> toUpperCase s = s"
  by (induction s) (auto simp: toUpperCase_def)

lemma quote_assets_upper: "q \<in> set QUOTE_ASSETS \<Longrightarrow> toUpperCase q = q"
  by (auto simp: QUOTE_ASSETS_def toUpperCase_def lit_def)

text \<open>No recognized quote asset is a suffix of another one.\<close>

lemma quote_assets_incomparable:
  "sorted_wrt (\<lambda>a b. \<not> suffix a b \<and> \<not> suffix b a) QUOTE_ASSETS"
  by (simp add: QUOTE_ASSETS_def lit_def suffix_to_prefix)

lemma formatDisplaySymbol_loop_quote:
  assumes "sorted_wrt (\<lambda>a b. \<not> suffix a b \<and> \<not> suffix b a) qs" "q \<in> set qs"
  shows "formatDisplaySymbol_loop qs (x @ q) = x @ lit ''/'' @ q"
  using assms
proof (induction qs)
  case Nil
  then show ?case by simp
next
  case (Cons r qs)
  show ?case
  proof (cases "r = q")
    case True
    have "suffix q (x @ q)" by (rule suffixI) simp
    with True show ?thesis by (simp add: endsWith_def)
  next
    case False
    with Cons.prems have q: "q \<in> set qs" and r: "\<not> suffix r q" "\<not> suffix q r"
      by auto
    have "\<not> suffix r (x @ q)"
    proof
      assume "suffix r (x @ q)"
      moreover have "suffix q (x @ q)" by (rule suffixI) simp
      ultimately have "suffix r q \<or> suffix q r" by (rule suffix_same_cases)
      with r show False by blast
    qed
    with Cons q show ?thesis by (simp add: endsWith_def)
  qed
qed

lemma pairToSymbol_pair:
  assumes "47 \<notin> set b" "q \<in> set QUOTE_ASSETS"
  shows "pairToSymbol (b @ lit ''/'' @ q) = toUpperCase b @ q"
proof -
  have "lit ''/'' = [47]" by (simp add: lit_def)
  then show ?thesis
    using assms
    by (simp add: pairToSymbol_def replace_first_append toUpperCase_append quote_assets_upper)
qed

text \<open>
  C7, as stated, takes every base asset back to itself. \<open>pairToSymbol\<close> turns the pair to
  upper case, so the pair btc/USDT comes back as BTC/USDT.
\<close>

theorem round_trip_counterexample:
  "formatDisplaySymbol (pairToSymbol (lit ''btc/USDT'')) = lit ''BTC/USDT''
   \<and> formatDisplaySymbol (pairToSymbol (lit ''btc/USDT'')) \<noteq> lit ''btc/USDT''"
  by (simp add: formatDisplaySymbol_def pairToSymbol_def QUOTE_ASSETS_def toUpperCase_def
      endsWith_def lit_def suffix_to_prefix)

text \<open>
  C7, amended. For every recognized quote asset Q and every ASCII base B without a
  slash, the pair B/Q goes to wire form and back as the upper-case form of B, a slash
  and Q; so the round trip gives B/Q again whenever B has no lower-case letter, as for
  BTC/USDT.
\<close>

theorem round_trip_upper_case:
  assumes "q \<in> set QUOTE_ASSETS" "isAscii b" "47 \<notin> set b"
  shows "formatDisplaySymbol (pairToSymbol (b @ lit ''/'' @ q)) = toUpperCase b @ lit ''/'' @ q
         \<and> (list_all (\<lambda>c. \<not> (97 \<le> c \<and> c \<le> 122)) b \<longrightarrow>
              formatDisplaySymbol (pairToSymbol (b @ lit ''/'' @ q)) = b @ lit ''/'' @ q)"
  using assms
  by (simp add: pairToSymbol_pair formatDisplaySymbol_def formatDisplaySymbol_loop_quote
      quote_assets_incomparable toUpperCase_no_lower)

theorem round_trip_upper_case_witness:
  "formatDisplaySymbol (pairToSymbol (lit ''BTC/USDT'')) = lit ''BTC/USDT''
   \<and> formatDisplaySymbol (pairToSymbol (lit ''eth/BTC'')) = lit ''ETH/BTC''"
  using round_trip_upper_case [of "lit ''USDT''" "lit ''BTC''"]
    round_trip_upper_case [of "lit ''BTC''" "lit ''eth''"]
  by (simp add: QUOTE_ASSETS_def isAscii_def toUpperCase_def lit_def)


section \<open>Closing trades in the mock store\<close>

lemma Math_round_frac:
  assumes "0 < b"
  shows "Math_round (of_int a / of_int b) = (2 * a + b) div (2 * b)"
proof -
  have "(of_int a / of_int b + 1 / 2 :: rat) = of_int (2 * a + b) / of_int (2 * b)"
    using assms by (simp add: field_simps)
  then show ?thesis
    unfolding Math_round_def by (simp only: floor_divide_of_int_eq)
qed

lemma Math_round_numeral:
  "Math_round (numeral m / numeral n) = (2 * numeral m + numeral n) div (2 * numeral n)"
  "Math_round (- (numeral m / numeral n)) = (2 * (- numeral m) + numeral n) div (2 * numeral n)"
  "Math_round (numeral m) = numeral m"
  "Math_round (- numeral m) = - numeral m"
  "Math_round 0 = 0"
  "Math_round 1 = 1"
  using Math_round_frac [of "numeral n" "numeral m"] Math_round_frac [of "numeral n" "- numeral m"]
    Math_round_of_int [of "numeral m"] Math_round_of_int [of "- numeral m"]
    Math_round_of_int [of 0] Math_round_of_int [of 1]
  by simp_all

lemma findIndex_None: "findIndex P xs = None \<longleftrightarrow> (\<forall>x\<in>set xs. \<not> P x)"
  by (induction xs) (auto split: option.splits)



lemma foldl_add_sum_list:
  "foldl (\<lambda>acc x. acc + f x) (a::rat) xs = a + sum_list (map f xs)"
  by (induction xs arbitrary: a) (simp_all add: add.assoc)

lemma marginUsed_sum:
  "marginUsed st =
     (\<Sum>p\<leftarrow>positions (account st). pos_entryPrice p * pos_quantity p / max (pos_leverage p) 1)"
  by (simp add: marginUsed_def Let_def foldl_add_sum_list)

lemma addLog_frame:
  "trades_active (snd (addLog rt lv msg det st)) = trades_active st"
  "trades_history (snd (addLog rt lv msg det st)) = trades_history st"
  "account (snd (addLog rt lv msg det st)) = account st"
  "settings (snd (addLog rt lv msg det st)) = settings st"
  "autoTrading (snd (addLog rt lv msg det st)) = autoTrading st"
  "market (snd (addLog rt lv msg det st)) = market st"
  by (simp_all add: addLog_def Let_def)

lemma removePosition_frame:
  "trades_active (removePosition k st) = trades_active st"
  "trades_history (removePosition k st) = trades_history st"
  "acc_totalBalance (account (removePosition k st)) = acc_totalBalance (account st)"
  by (simp_all add: removePosition_def split: option.splits)

lemma syncAccountBalances_frame:
  "trades_active (syncAccountBalances st) = trades_active st"
  "trades_history (syncAccountBalances st) = trades_history st"
  "acc_totalBalance (account (syncAccountBalances st)) = acc_totalBalance (account st)"
  "positions (account (syncAccountBalances st)) = positions (account st)"
  by (simp_all add: syncAccountBalances_def Let_def)

lemma syncAccountBalances_available:
  "acc_availableBalance (account (syncAccountBalances st))
     = round_st (max (acc_totalBalance (account st) - marginUsed st) 0) 2"
  by (simp add: syncAccountBalances_def Let_def)

text \<open>The steps of \<open>closeTrade\<close> when the trade is found at index \<open>i\<close>.\<close>

lemma closeTrade_steps:
  fixes rt :: runtime and st :: state and i :: nat and tradeId :: jsstring
  assumes found: "findIndex (\<lambda>trade. trade_id trade = tradeId) (trades_active st) = Some i"
  defines "trade \<equiv> trades_active st ! i"
  defines "x \<equiv> round_st ((case getMarketSnapshot rt (st\<lparr>trades_active := splice1 i (trades_active st)\<rparr>)
                                (toSymbolKey (symbol trade)) of
                           None \<Rightarrow> entryPrice trade | Some m \<Rightarrow> ms_price m)
                        + (if trade_type trade = Long then 4 / 10 else - (4 / 10))) 2"
  defines "pr \<equiv> round_st ((x - entryPrice trade) * quantity trade
                         * (if trade_type trade = Long then 1 else - 1)) 2"
  shows "\<exists>pp lg.
           closeTrade rt tradeId st =
             (Some (trade\<lparr> status := Closed, exitPrice := Some x,
                           exitTime := Some (Date_toISOString_now rt),
                           profit := Some pr, profitPercent := Some pp \<rparr>),
              st\<lparr> trades_active := splice1 i (trades_active st),
                  trades_history := trade\<lparr> status := Closed, exitPrice := Some x,
                           exitTime := Some (Date_toISOString_now rt),
                           profit := Some pr, profitPercent := Some pp \<rparr> # trades_history st,
                  account := account (syncAccountBalances (removePosition (toSymbolKey (symbol trade))
                     (st\<lparr>account := (account st)
                          \<lparr>acc_totalBalance := round_st (acc_totalBalance (account st) + pr) 2\<rparr>\<rparr>))),
                  logs := lg \<rparr>)"
proof -
  define st1 where "st1 = st\<lparr>trades_active := splice1 i (trades_active st)\<rparr>"
  define x' where "x' = round_st ((case getMarketSnapshot rt st1 (toSymbolKey (symbol trade)) of
      None \<Rightarrow> entryPrice trade | Some m \<Rightarrow> ms_price m)
      + (if trade_type trade = Long then 4 / 10 else - (4 / 10))) 2"
  define pr' where "pr' = fst (calculateProfit trade x')"
  define pp where "pp = snd (calculateProfit trade x')"
  define c where "c = trade\<lparr> status := Closed, exitPrice := Some x',
      exitTime := Some (Date_toISOString_now rt), profit := Some pr', profitPercent := Some pp \<rparr>"
  define st2 where "st2 = st1\<lparr>trades_history := c # trades_history st1\<rparr>"
  define st3 where "st3 = st2\<lparr>account := (account st2)
      \<lparr>acc_totalBalance := round_st (acc_totalBalance (account st2) + pr') 2\<rparr>\<rparr>"
  define st4 where "st4 = removePosition (toSymbolKey (symbol trade)) st3"
  define st5 where "st5 = syncAccountBalances st4"
  define st6 where "st6 = snd (addLog rt (if pr' \<ge> 0 then Success else Warning)
      (msg_trade_closed @ symbol trade)
      (Some (msg_profit @ toFixed (Number_toString rt) (Finite pr') 2
             @ lit ''$ ('' @ toFixed (Number_toString rt) (Finite pp) 2 @ lit ''%)'')) st5)"
  have run: "closeTrade rt tradeId st = (Some c, st6)"
    unfolding closeTrade_def found option.case Let_def case_prod_beta
      st6_def st5_def st4_def st3_def st2_def c_def pp_def pr'_def x'_def st1_def trade_def
    by (rule refl)
  have xx: "x' = x"
    unfolding x'_def x_def st1_def by (rule refl)
  have prof: "pr' = pr"
    by (simp add: pr'_def pr_def xx calculateProfit_def Let_def)
  have shape: "st6 = st\<lparr> trades_active := splice1 i (trades_active st),
                          trades_history := c # trades_history st,
                          account := account (syncAccountBalances (removePosition (toSymbolKey (symbol trade))
                     (st\<lparr>account := (account st)
                          \<lparr>acc_totalBalance := round_st (acc_totalBalance (account st) + pr') 2\<rparr>\<rparr>))),
                          logs := logs st6 \<rparr>"
    by (simp add: st6_def st5_def st4_def st3_def st2_def st1_def addLog_def
        syncAccountBalances_def removePosition_def marginUsed_def Let_def split: option.splits)
  from run shape have "closeTrade rt tradeId st =
       (Some c, st\<lparr> trades_active := splice1 i (trades_active st),
                          trades_history := c # trades_history st,
                          account := account (syncAccountBalances (removePosition (toSymbolKey (symbol trade))
                     (st\<lparr>account := (account st)
                          \<lparr>acc_totalBalance := round_st (acc_totalBalance (account st) + pr') 2\<rparr>\<rparr>))),
                          logs := logs st6 \<rparr>)"
    by simp
  then show ?thesis
    unfolding c_def xx prof by blast
qed

text \<open>
  C10. When no active trade has the given id, \<open>closeTrade\<close> returns null and the store
  is what it was: active list, history, account with its balances and positions, settings
  and activity log. No log entry is written.
\<close>

theorem closeTrade_not_found:
  assumes "tradeId \<notin> set (map trade_id (trades_active st))"
  shows "closeTrade rt tradeId st = (None, st)"
proof -
  from assms have "findIndex (\<lambda>trade. trade_id trade = tradeId) (trades_active st) = None"
    by (auto simp: findIndex_None)
  then show ?thesis by (simp add: closeTrade_def)
qed

lemma initial_trade_ids:
  "map trade_id (trades_active initial_state) =
     [lit ''trade-btc-long-active'', lit ''trade-eth-short-active'', lit ''trade-sol-long-active'']"
  by (simp add: initial_state_def initialActiveTrades_def initialActiveTrades_0_def
      initialActiveTrades_1_def initialActiveTrades_2_def)

theorem closeTrade_not_found_witness:
  "closeTrade sample_runtime (lit ''trade-ada-long-active'') initial_state = (None, initial_state)"
proof -
  have "lit ''trade-ada-long-active'' \<notin> set (map trade_id (trades_active initial_state))"
    unfolding initial_trade_ids by (simp add: lit_def)
  then show ?thesis by (rule closeTrade_not_found)
qed


subsection \<open>What closing a trade records\<close>

text \<open>The sample runtime on the seed: prices of the market snapshot, and the trades found.\<close>

lemma initial_market_price:
  "map_option ms_price (getMarketSnapshot sample_runtime (initial_state\<lparr>trades_active := a\<rparr>)
     (lit ''BTCUSDT'')) = Some 67420"
  "map_option ms_price (getMarketSnapshot sample_runtime (initial_state\<lparr>trades_active := a\<rparr>)
     (lit ''ETHUSDT'')) = Some 3175"
  "map_option ms_price (getMarketSnapshot sample_runtime (initial_state\<lparr>trades_active := a\<rparr>)
     (lit ''SOLUSDT'')) = Some 188"
  by (simp_all add: getMarketSnapshot_def initial_state_def marketBaselines_def toSymbolKey_def
      toUpperCase_def jitter_def sample_runtime_def round_st_def Math_round_numeral Let_def
      lit_def)

lemma initial_findIndex:
  "findIndex (\<lambda>trade. trade_id trade = lit ''trade-btc-long-active'')
     (trades_active initial_state) = Some 0"
  "findIndex (\<lambda>trade. trade_id trade = lit ''trade-eth-short-active'')
     (trades_active initial_state) = Some (Suc 0)"
  by (simp_all add: initial_state_def initialActiveTrades_def initialActiveTrades_0_def
      initialActiveTrades_1_def initialActiveTrades_2_def lit_def)

lemma initial_nth:
  "trades_active initial_state ! 0 = initialActiveTrades_0"
  "trades_active initial_state ! Suc 0 = initialActiveTrades_1"
  by (simp_all add: initial_state_def initialActiveTrades_def)

lemma initial_keys:
  "toSymbolKey (symbol initialActiveTrades_0) = lit ''BTCUSDT''"
  "toSymbolKey (symbol initialActiveTrades_1) = lit ''ETHUSDT''"
  by (simp_all add: initialActiveTrades_0_def initialActiveTrades_1_def toSymbolKey_def
      toUpperCase_def lit_def)





subsection \<open>The available balance\<close>

lemma closeTrade_synced:
  assumes "balances_synced st \<or> tradeId \<in> set (map trade_id (trades_active st))"
  shows "balances_synced (snd (closeTrade rt tradeId st))"
proof (cases "findIndex (\<lambda>trade. trade_id trade = tradeId) (trades_active st)")
  case None
  then have "tradeId \<notin> set (map trade_id (trades_active st))"
    by (auto simp: findIndex_None)
  with assms None show ?thesis
    by (simp add: closeTrade_def)
next
  case (Some i)
  from closeTrade_steps [OF Some, of rt] obtain c lg st'
    where "closeTrade rt tradeId st =
             (Some c, st\<lparr> trades_active := splice1 i (trades_active st),
                  trades_history := c # trades_history st,
                  account := account (syncAccountBalances st'),
                  logs := lg \<rparr>)"
    by blast
  then show ?thesis
    by (simp add: balances_synced_def marginUsed_def syncAccountBalances_def Let_def)
qed

lemma closeAllTrades_loop_synced:
  "balances_synced st \<Longrightarrow> balances_synced (snd (closeAllTrades_loop rts k ts results st))"
proof (induction ts arbitrary: k results st)
  case Nil
  then show ?case by simp
next
  case (Cons t ts)
  from Cons.prems have "balances_synced (snd (closeTrade (rts k) (trade_id t) st))"
    by (simp add: closeTrade_synced)
  then show ?case
    by (cases "closeTrade (rts k) (trade_id t) st") (auto split: option.splits intro: Cons.IH)
qed

lemma closeAllTrades_synced:
  assumes "trades_active st \<noteq> []"
  shows "balances_synced (snd (closeAllTrades rts st))"
proof -
  from assms obtain t ts where ts: "trades_active st = t # ts"
    by (cases "trades_active st") auto
  then have "balances_synced (snd (closeTrade (rts 0) (trade_id t) st))"
    by (simp add: closeTrade_synced)
  then show ?thesis
    unfolding closeAllTrades_def ts
    by (cases "closeTrade (rts 0) (trade_id t) st")
      (auto split: option.splits intro: closeAllTrades_loop_synced)
qed

text \<open>
  C6, as stated, has available = total - sum of entryPrice * quantity / leverage.
  Closing the ETH trade of the seed leaves the total balance 125449.5 and the BTC and SOL
  positions, whose margins are 4707.5315 and 10965; the available balance recorded is
  109776.97, and the difference is 109776.9685.
\<close>

theorem available_balance_counterexample:
  "acc_totalBalance (account (snd (closeTrade sample_runtime (lit ''trade-eth-short-active'')
      initial_state))) = 1254495 / 10
   \<and> positions (account (snd (closeTrade sample_runtime (lit ''trade-eth-short-active'')
      initial_state)))
       = [ \<lparr> pos_symbol = lit ''BTCUSDT'', pos_side = LONG, pos_entryPrice = 6725045 / 100,
              pos_quantity = 35 / 100, pos_leverage = 5 \<rparr>,
           \<lparr> pos_symbol = lit ''SOLUSDT'', pos_side = LONG, pos_entryPrice = 18275 / 100,
              pos_quantity = 120, pos_leverage = 2 \<rparr> ]
   \<and> acc_availableBalance (account (snd (closeTrade sample_runtime
      (lit ''trade-eth-short-active'') initial_state))) = 10977697 / 100
   \<and> (10977697 / 100 :: rat)
       \<noteq> 1254495 / 10 - (6725045 / 100 * (35 / 100) / 5 + 18275 / 100 * 120 / 2)"
proof -
  have m: "(case getMarketSnapshot sample_runtime
              (initial_state\<lparr>trades_active := splice1 (Suc 0) (trades_active initial_state)\<rparr>)
              (lit ''ETHUSDT'') of
            None \<Rightarrow> e | Some m \<Rightarrow> ms_price m) = 3175" for e
    using initial_market_price(2) [of "splice1 (Suc 0) (trades_active initial_state)"]
    by (auto split: option.splits)
  have t: "entryPrice initialActiveTrades_1 = 31856 / 10"
    "quantity initialActiveTrades_1 = 45 / 10" "trade_type initialActiveTrades_1 = Short"
    by (simp_all add: initialActiveTrades_1_def)
  have pr: "round_st ((round_st (3175 + (if Short = Long then 4 / 10 else - (4 / 10))) 2
      - 31856 / 10) * (45 / 10) * (if Short = Long then 1 else - 1)) 2 = 495 / 10"
    by (simp add: round_st_def Math_round_numeral)
  have acct: "account (syncAccountBalances (removePosition (lit ''ETHUSDT'')
      (initial_state\<lparr>account := (account initial_state)
         \<lparr>acc_totalBalance := round_st (acc_totalBalance (account initial_state) + 495 / 10) 2\<rparr>\<rparr>)))
     = \<lparr> acc_connected = True, acc_totalBalance = 1254495 / 10,
         acc_availableBalance = 10977697 / 100,
         acc_message = acc_message accountState, acc_error = None,
         positions =
           [ \<lparr> pos_symbol = lit ''BTCUSDT'', pos_side = LONG, pos_entryPrice = 6725045 / 100,
                pos_quantity = 35 / 100, pos_leverage = 5 \<rparr>,
             \<lparr> pos_symbol = lit ''SOLUSDT'', pos_side = LONG, pos_entryPrice = 18275 / 100,
                pos_quantity = 120, pos_leverage = 2 \<rparr> ] \<rparr>"
    by (simp add: syncAccountBalances_def removePosition_def marginUsed_def splice1_def
        initial_state_def accountState_def round_st_def Math_round_numeral Let_def lit_def)
  from closeTrade_steps [OF initial_findIndex(2), of sample_runtime]
  obtain pp lg c where
    "closeTrade sample_runtime (lit ''trade-eth-short-active'') initial_state =
       (Some c, initial_state\<lparr> trades_active := splice1 (Suc 0) (trades_active initial_state),
            trades_history := c # trades_history initial_state,
            account := account (syncAccountBalances (removePosition (lit ''ETHUSDT'')
              (initial_state\<lparr>account := (account initial_state)
                 \<lparr>acc_totalBalance := round_st (acc_totalBalance (account initial_state) + 495 / 10) 2\<rparr>\<rparr>))),
            logs := lg \<rparr>)"
    unfolding initial_nth initial_keys m t pr
    by blast
  then show ?thesis
    unfolding acct by simp
qed

text \<open>
  C6, amended. In the mock store, after \<open>closeTrade\<close> has closed a trade, and after
  \<open>closeAllTrades\<close> on a store with an active trade, the available balance is the total
  balance less the sum over the positions of entryPrice * quantity / max(leverage, 1),
  not below 0, rounded to two decimals.
\<close>

theorem available_balance_after_close:
  "(tradeId \<in> set (map trade_id (trades_active st)) \<longrightarrow>
      (let a = account (snd (closeTrade rt tradeId st))
       in acc_availableBalance a
            = round_st (max (acc_totalBalance a
                - (\<Sum>p\<leftarrow>positions a. pos_entryPrice p * pos_quantity p / max (pos_leverage p) 1)) 0) 2))
   \<and> (trades_active st \<noteq> [] \<longrightarrow>
      (let a = account (snd (closeAllTrades rts st))
       in acc_availableBalance a
            = round_st (max (acc_totalBalance a
                - (\<Sum>p\<leftarrow>positions a. pos_entryPrice p * pos_quantity p / max (pos_leverage p) 1)) 0) 2))"
  using closeTrade_synced [of st tradeId rt] closeAllTrades_synced [of st rts]
  by (simp add: balances_synced_def marginUsed_sum Let_def)

theorem available_balance_after_close_witness:
  "(let a = account (snd (closeTrade sample_runtime (lit ''trade-eth-short-active'') initial_state))
    in acc_availableBalance a
         = round_st (max (acc_totalBalance a
             - (\<Sum>p\<leftarrow>positions a. pos_entryPrice p * pos_quantity p / max (pos_leverage p) 1)) 0) 2)
   \<and> (let a = account (snd (closeAllTrades (\<lambda>k. sample_runtime) initial_state))
    in acc_availableBalance a
         = round_st (max (acc_totalBalance a
             - (\<Sum>p\<leftarrow>positions a. pos_entryPrice p * pos_quantity p / max (pos_leverage p) 1)) 0) 2)"
proof -
  have "lit ''trade-eth-short-active'' \<in> set (map trade_id (trades_active initial_state))"
    unfolding initial_trade_ids by simp
  moreover have "trades_active initial_state \<noteq> []"
    by (simp add: initial_state_def initialActiveTrades_def)
  ultimately show ?thesis
    using available_balance_after_close [of "lit ''trade-eth-short-active''" initial_state
        sample_runtime "\<lambda>k. sample_runtime"]
    by blast
qed


section \<open>Settings updates with masked secrets\<close>

lemma placeholder_cases:
  "includes_str s mask_char \<or> startsWith s (lit ''__env__'') \<or> s = []
     \<Longrightarrow> placeholder_value (Some (JStr s))"
  by (auto simp: placeholder_value_def trim_def)

lemma sanitize_other:
  "k \<noteq> lit ''binanceApiKey'' \<Longrightarrow> k \<noteq> lit ''binanceApiSecret''
     \<Longrightarrow> sanitizeIncomingSettings payload env k = payload k"
  by (simp add: sanitizeIncomingSettings_def Let_def)

lemma sanitize_key:
  "placeholder_value (payload (lit ''binanceApiKey''))
     \<Longrightarrow> sanitizeIncomingSettings payload env (lit ''binanceApiKey'') = None"
  by (simp add: sanitizeIncomingSettings_def Let_def lit_def)

lemma sanitize_secret:
  "placeholder_value (payload (lit ''binanceApiSecret''))
     \<Longrightarrow> sanitizeIncomingSettings payload env (lit ''binanceApiSecret'') = None"
  by (simp add: sanitizeIncomingSettings_def Let_def lit_def)

lemma updateSettings_settings:
  "settings (updateSettings rt input st) = settings st ++ updated_object rt st input"
  by (simp add: updateSettings_def Let_def case_prod_beta addLog_frame)

lemma updateSettings_absent:
  "input k = None \<Longrightarrow> settings (updateSettings rt input st) k = settings st k"
  by (simp add: updateSettings_settings updated_object_def map_add_def)

lemma updateSettings_present:
  "input k = Some v \<Longrightarrow> v \<noteq> JUndefined \<Longrightarrow> k \<noteq> lit ''__proto__''
     \<Longrightarrow> settings (updateSettings rt input st) k = Some (updated_entry rt st k v)"
  by (simp add: updateSettings_settings updated_object_def map_add_def)

text \<open>
  C8. A settings update goes through \<open>sanitizeIncomingSettings\<close> and then
  \<open>updateSettings\<close>. When the submitted \<open>binanceApiKey\<close> is a masked value (a string that
  holds the mask character, starts with \<open>__env__\<close>, or is empty) the stored key stays
  what it was, and likewise the stored \<open>binanceApiSecret\<close> when the submitted secret is
  masked. Every other submitted field is merged: it is stored as submitted, or as its
  number when the stored value is a number and the submitted one a string. Fields that
  are not submitted stay what they were.
\<close>

theorem masked_secret_not_stored:
  "(let st' = updateSettings rt (sanitizeIncomingSettings payload env) st
    in (\<forall>s. payload (lit ''binanceApiKey'') = Some (JStr s)
            \<and> (includes_str s mask_char \<or> startsWith s (lit ''__env__'') \<or> s = [])
          \<longrightarrow> settings st' (lit ''binanceApiKey'') = settings st (lit ''binanceApiKey''))
     \<and> (\<forall>s. payload (lit ''binanceApiSecret'') = Some (JStr s)
            \<and> (includes_str s mask_char \<or> startsWith s (lit ''__env__'') \<or> s = [])
          \<longrightarrow> settings st' (lit ''binanceApiSecret'') = settings st (lit ''binanceApiSecret''))
     \<and> (\<forall>k v. k \<noteq> lit ''binanceApiKey'' \<and> k \<noteq> lit ''binanceApiSecret''
              \<and> k \<noteq> lit ''__proto__'' \<and> payload k = Some v \<and> v \<noteq> JUndefined
          \<longrightarrow> settings st' k = Some (updated_entry rt st k v))
     \<and> (\<forall>k. k \<noteq> lit ''binanceApiKey'' \<and> k \<noteq> lit ''binanceApiSecret'' \<and> payload k = None
          \<longrightarrow> settings st' k = settings st k))"
  unfolding Let_def
proof (intro conjI allI impI)
  fix s
  assume "payload (lit ''binanceApiKey'') = Some (JStr s)
            \<and> (includes_str s mask_char \<or> startsWith s (lit ''__env__'') \<or> s = [])"
  then have "placeholder_value (payload (lit ''binanceApiKey''))"
    using placeholder_cases [of s] by simp
  then show "settings (updateSettings rt (sanitizeIncomingSettings payload env) st)
               (lit ''binanceApiKey'') = settings st (lit ''binanceApiKey'')"
    by (simp add: sanitize_key updateSettings_absent)
next
  fix s
  assume "payload (lit ''binanceApiSecret'') = Some (JStr s)
            \<and> (includes_str s mask_char \<or> startsWith s (lit ''__env__'') \<or> s = [])"
  then have "placeholder_value (payload (lit ''binanceApiSecret''))"
    using placeholder_cases [of s] by simp
  then show "settings (updateSettings rt (sanitizeIncomingSettings payload env) st)
               (lit ''binanceApiSecret'') = settings st (lit ''binanceApiSecret'')"
    by (simp add: sanitize_secret updateSettings_absent)
next
  fix k v
  assume "k \<noteq> lit ''binanceApiKey'' \<and> k \<noteq> lit ''binanceApiSecret''
              \<and> k \<noteq> lit ''__proto__'' \<and> payload k = Some v \<and> v \<noteq> JUndefined"
  then show "settings (updateSettings rt (sanitizeIncomingSettings payload env) st) k
               = Some (updated_entry rt st k v)"
    by (simp add: sanitize_other updateSettings_present)
next
  fix k
  assume "k \<noteq> lit ''binanceApiKey'' \<and> k \<noteq> lit ''binanceApiSecret'' \<and> payload k = None"
  then show "settings (updateSettings rt (sanitizeIncomingSettings payload env) st) k
               = settings st k"
    by (simp add: sanitize_other updateSettings_absent)
qed

lemma masked_payload_fields:
  "masked_payload (lit ''binanceApiKey'')
     = Some (JStr ([8226, 8226, 8226, 8226, 8226, 8226, 8226, 8226] @ lit ''-key''))"
  "masked_payload (lit ''binanceApiSecret'') = Some (JStr [])"
  "masked_payload (lit ''maxDailyTrades'') = Some (JStr (lit ''20''))"
  "masked_payload (lit ''isTestnet'') = Some (JBool False)"
  "masked_payload (lit ''rsiPeriod'') = None"
  by (simp_all add: masked_payload_def lit_def)

lemma initial_settings_fields:
  "settings initial_state (lit ''binanceApiKey'') = Some (JStr (lit ''demo-api-key''))"
  "settings initial_state (lit ''binanceApiSecret'') = Some (JStr (lit ''demo-secret''))"
  "settings initial_state (lit ''maxDailyTrades'') = Some (JNum (Finite 12))"
  "settings initial_state (lit ''isTestnet'') = Some (JBool True)"
  "settings initial_state (lit ''rsiPeriod'') = Some (JNum (Finite 14))"
  by (simp_all add: initial_state_def defaultSettings_def lit_def)

text \<open>
  On the seed, the masked key and the empty secret leave both secrets as they were, the
  two changed fields are stored (the string 20 as the number 20), and a field that was
  not submitted keeps its value.
\<close>

theorem masked_secret_not_stored_witness:
  "settings (updateSettings sample_runtime (sanitizeIncomingSettings masked_payload sample_env)
      initial_state) (lit ''binanceApiKey'') = Some (JStr (lit ''demo-api-key''))
   \<and> settings (updateSettings sample_runtime (sanitizeIncomingSettings masked_payload sample_env)
      initial_state) (lit ''binanceApiSecret'') = Some (JStr (lit ''demo-secret''))
   \<and> settings (updateSettings sample_runtime (sanitizeIncomingSettings masked_payload sample_env)
      initial_state) (lit ''maxDailyTrades'') = Some (JNum (Finite 20))
   \<and> settings (updateSettings sample_runtime (sanitizeIncomingSettings masked_payload sample_env)
      initial_state) (lit ''isTestnet'') = Some (JBool False)
   \<and> settings (updateSettings sample_runtime (sanitizeIncomingSettings masked_payload sample_env)
      initial_state) (lit ''rsiPeriod'') = Some (JNum (Finite 14))"
proof -
  let ?st' = "updateSettings sample_runtime (sanitizeIncomingSettings masked_payload sample_env)
      initial_state"
  note t = masked_secret_not_stored [of sample_runtime masked_payload sample_env initial_state,
      unfolded Let_def]
  have mask: "includes_str ([8226, 8226, 8226, 8226, 8226, 8226, 8226, 8226] @ lit ''-key'')
      mask_char"
    by (simp add: mask_char_def)
  have ne: "lit ''maxDailyTrades'' \<noteq> lit ''binanceApiKey''"
    "lit ''maxDailyTrades'' \<noteq> lit ''binanceApiSecret''"
    "lit ''maxDailyTrades'' \<noteq> lit ''__proto__''"
    "lit ''isTestnet'' \<noteq> lit ''binanceApiKey''"
    "lit ''isTestnet'' \<noteq> lit ''binanceApiSecret''"
    "lit ''isTestnet'' \<noteq> lit ''__proto__''"
    "lit ''rsiPeriod'' \<noteq> lit ''binanceApiKey''"
    "lit ''rsiPeriod'' \<noteq> lit ''binanceApiSecret''"
    by (simp_all add: lit_def)
  have num: "updated_entry sample_runtime initial_state (lit ''maxDailyTrades'') (JStr (lit ''20''))
      = JNum (Finite 20)"
    unfolding updated_entry_def initial_settings_fields
    by (simp add: sample_runtime_def sample_parseFloat_def decimal_value_def digits_value_def
        isDigit_def lit_def)
  have bool: "updated_entry sample_runtime initial_state (lit ''isTestnet'') (JBool False)
      = JBool False"
    by (simp add: updated_entry_def initial_settings_fields)
  from t mask masked_payload_fields(1)
  have "settings ?st' (lit ''binanceApiKey'') = settings initial_state (lit ''binanceApiKey'')"
    by blast
  moreover from t masked_payload_fields(2)
  have "settings ?st' (lit ''binanceApiSecret'') = settings initial_state (lit ''binanceApiSecret'')"
    by blast
  moreover from t ne(1-3) masked_payload_fields(3)
  have "settings ?st' (lit ''maxDailyTrades'')
      = Some (updated_entry sample_runtime initial_state (lit ''maxDailyTrades'') (JStr (lit ''20'')))"
    by blast
  moreover from t ne(4-6) masked_payload_fields(4)
  have "settings ?st' (lit ''isTestnet'')
      = Some (updated_entry sample_runtime initial_state (lit ''isTestnet'') (JBool False))"
    by blast
  moreover from t ne(7-8) masked_payload_fields(5)
  have "settings ?st' (lit ''rsiPeriod'') = settings initial_state (lit ''rsiPeriod'')"
    by blast
  ultimately show ?thesis
    by (simp only: initial_settings_fields num bool simp_thms)
qed


section \<open>Closing a position on the exchange\<close>








section \<open>The quantity of a closing order\<close>

subsection \<open>Digits and their value\<close>


lemma digits_nonempty: "digits n \<noteq> []"
  by (subst digits.simps) simp







subsection \<open>The three replacements\<close>











subsection \<open>Reading a decimal numeral\<close>





subsection \<open>The fixed representation and what is left of it\<close>






subsection \<open>Concrete quantities\<close>









subsection \<open>The order that closes a position\<close>





end
